theory Spec2Isabelle
  imports Main "HOL-Library.Word" "HOL-Library.Sublist"
begin

section \<open>JavaScript strings\<close>

text \<open>
  A JavaScript string is a sequence of UTF-16 code units and \<^verbatim>\<open>length\<close> counts code
  units, so a string is a list of 16-bit words. The literals of \<^verbatim>\<open>index.js\<close> only use
  characters of Basic Latin and Latin-1 Supplement, whose code units are their Latin-1
  byte values; \<open>latin1\<close> writes such a literal (\<open>CHR 0xED\<close> is the i with acute accent).
\<close>

type_synonym jschar = "16 word"
type_synonym jsstring = "jschar list"

definition latin1 :: "string \<Rightarrow> jsstring" where
  "latin1 s = map of_char s"

text \<open>\<^verbatim>\<open>a || b\<close> on strings: the empty string is falsy. A property that is
  \<^verbatim>\<open>undefined\<close> (\<^verbatim>\<open>innerText\<close> of an element that is not an HTMLElement) is falsy as
  well, and every read of \<^verbatim>\<open>innerText\<close> in \<^verbatim>\<open>index.js\<close> is an operand of \<^verbatim>\<open>||\<close>, so
  an undefined property is represented by the empty string.\<close>

definition orElse :: "jsstring \<Rightarrow> jsstring \<Rightarrow> jsstring" where
  "orElse a b = (if a = [] then b else a)"

text \<open>\<^verbatim>\<open>String.prototype.trim\<close> strips WhiteSpace and LineTerminator code units
  (ECMA-262, 22.1.3.32) from both ends.\<close>

definition isWhiteSpace :: "jschar \<Rightarrow> bool" where
  "isWhiteSpace c =
     (c \<in> set [0x09, 0x0A, 0x0B, 0x0C, 0x0D, 0x20, 0xA0, 0x1680,
                0x2028, 0x2029, 0x202F, 0x205F, 0x3000, 0xFEFF]
      \<or> (0x2000 \<le> c \<and> c \<le> 0x200A))"

definition trim :: "jsstring \<Rightarrow> jsstring" where
  "trim s = rev (dropWhile isWhiteSpace (rev (dropWhile isWhiteSpace s)))"

text \<open>\<^verbatim>\<open>String.prototype.toLowerCase\<close>. The mapping is exact on every code unit whose
  lower-case form lies in U+0000..U+00FF: the capital letters of Basic Latin and Latin-1
  Supplement, and U+0130, U+0178, U+1E9E, U+212A (Kelvin sign) and U+212B (Angstrom sign),
  which are the code points outside Latin-1 that the Unicode tables send into it. Every
  other code unit (that the engine maps to itself or to code units above U+00FF, one for
  one) is left as it is. \<^verbatim>\<open>index.js\<close> only passes a lower-cased text to
  \<^verbatim>\<open>includes\<close> with a Latin-1 keyword, which this leaves unchanged.\<close>

definition lowerUnits :: "jschar \<Rightarrow> jsstring" where
  "lowerUnits c =
     (if 0x41 \<le> c \<and> c \<le> 0x5A then [c + 0x20]
      else if 0xC0 \<le> c \<and> c \<le> 0xDE \<and> c \<noteq> 0xD7 then [c + 0x20]
      else if c = 0x0130 then [0x69, 0x0307]
      else if c = 0x0178 then [0xFF]
      else if c = 0x1E9E then [0xDF]
      else if c = 0x212A then [0x6B]
      else if c = 0x212B then [0xE5]
      else [c])"

definition toLowerCase :: "jsstring \<Rightarrow> jsstring" where
  "toLowerCase s = concat (map lowerUnits s)"

text \<open>\<^verbatim>\<open>s.includes(p)\<close>: \<open>p\<close> occurs in \<open>s\<close> as a contiguous run of code units.\<close>

definition includes_str :: "jsstring \<Rightarrow> jsstring \<Rightarrow> bool" where
  "includes_str s p = sublist p s"

text \<open>\<^verbatim>\<open>!t.toLowerCase().includes(k1) && ... && !t.toLowerCase().includes(kn)\<close> and
  \<^verbatim>\<open>ks.some((k) => t.toLowerCase().includes(k))\<close>.\<close>

definition naoContem :: "jsstring \<Rightarrow> jsstring list \<Rightarrow> bool" where
  "naoContem t ks = list_all (\<lambda>k. \<not> includes_str (toLowerCase t) k) ks"

definition temPalavrasChave :: "jsstring \<Rightarrow> jsstring list \<Rightarrow> bool" where
  "temPalavrasChave t ks = list_ex (\<lambda>k. includes_str (toLowerCase t) k) ks"

text \<open>\<^verbatim>\<open>s.split("\n")\<close> and \<^verbatim>\<open>xs.join(sep)\<close>.\<close>

fun split_str :: "jschar \<Rightarrow> jsstring \<Rightarrow> jsstring list" where
  "split_str sep [] = [[]]"
| "split_str sep (c # cs) =
     (if c = sep then [] # split_str sep cs
      else (case split_str sep cs of
              [] \<Rightarrow> [[c]]
            | l # ls \<Rightarrow> (c # l) # ls))"

fun join_str :: "jsstring \<Rightarrow> jsstring list \<Rightarrow> jsstring" where
  "join_str sep [] = []"
| "join_str sep [x] = x"
| "join_str sep (x # y # ys) = x @ sep @ join_str sep (y # ys)"

text \<open>\<^verbatim>\<open>s.replace(/pat/g, "")\<close> and \<^verbatim>\<open>s.replace(/pat/gi, "")\<close> for a pattern of
  literal characters: every match is removed, scanning from the left and resuming after
  each match. The lazy \<^verbatim>\<open>.*?\<close> that ends three of the patterns of \<^verbatim>\<open>index.js\<close> matches
  the empty string, so those patterns remove their literal part only. Without the
  \<^verbatim>\<open>u\<close> flag, \<^verbatim>\<open>i\<close> compares code units after Canonicalize (ECMA-262, 22.2.5.6), under
  which a letter of Basic Latin or Latin-1 other than U+00B5 and U+00FF only equals its
  own two cases, and any other character of the patterns only itself; \<open>sameLetter\<close> is
  that comparison for the characters of the patterns of \<^verbatim>\<open>index.js\<close>.\<close>

definition sameLetter :: "jschar \<Rightarrow> jschar \<Rightarrow> bool" where
  "sameLetter p c = (c = p \<or> (lowerUnits c = lowerUnits p \<and> p \<le> 0xFF \<and> c \<le> 0xFF))"

fun matchesAt :: "(jschar \<Rightarrow> jschar \<Rightarrow> bool) \<Rightarrow> jsstring \<Rightarrow> jsstring \<Rightarrow> bool" where
  "matchesAt eq [] s = True"
| "matchesAt eq (p # ps) [] = False"
| "matchesAt eq (p # ps) (c # cs) = (eq p c \<and> matchesAt eq ps cs)"

function removeAll_str :: "(jschar \<Rightarrow> jschar \<Rightarrow> bool) \<Rightarrow> jsstring \<Rightarrow> jsstring \<Rightarrow> jsstring" where
  "removeAll_str eq pat [] = []"
| "removeAll_str eq pat (c # cs) =
     (if pat \<noteq> [] \<and> matchesAt eq pat (c # cs)
      then removeAll_str eq pat (drop (length pat) (c # cs))
      else c # removeAll_str eq pat cs)"
  by pat_completeness auto
termination
  by (relation "measure (\<lambda>(eq, pat, s). length s)") (auto simp: neq_Nil_conv)

section \<open>The rendered page\<close>

text \<open>
  The strategy chain runs inside \<^verbatim>\<open>page.evaluate\<close> and reads the page through the DOM
  only. An element is what the chain observes of it: \<^verbatim>\<open>innerText\<close>, \<^verbatim>\<open>textContent\<close>,
  the \<^verbatim>\<open>innerText\<close> and \<^verbatim>\<open>textContent\<close> of the detached \<^verbatim>\<open>div\<close> that receives the
  element's \<^verbatim>\<open>innerHTML\<close> (lines 283-287), and the result of
  \<^verbatim>\<open>querySelectorAll("p, li, div, span")\<close> on it (line 381), in document order.
\<close>

datatype element = Element
  (innerText: jsstring)
  (textContent: jsstring)
  (tempDivInnerText: jsstring)
  (tempDivTextContent: jsstring)
  (paragrafos: "element list")

text \<open>
  A document answers \<^verbatim>\<open>document.querySelector\<close> and \<^verbatim>\<open>document.querySelectorAll\<close>
  for a selector. A query either throws (\<open>Inl\<close> of the error's message) or returns:
  \<open>None\<close> is \<^verbatim>\<open>null\<close>, and the list holds the matches in document order.
\<close>

record document =
  querySelector :: "string \<Rightarrow> jsstring + element option"
  querySelectorAll :: "string \<Rightarrow> jsstring + element list"

text \<open>A page given by the matches of each selector; \<^verbatim>\<open>querySelector\<close> is the first
  match, and no query throws.\<close>

definition matchesOf :: "(string \<times> element list) list \<Rightarrow> string \<Rightarrow> element list" where
  "matchesOf tab sel = (case map_of tab sel of None \<Rightarrow> [] | Some els \<Rightarrow> els)"

definition pageOf :: "(string \<times> element list) list \<Rightarrow> document" where
  "pageOf tab =
     \<lparr> querySelector = (\<lambda>sel. Inr (case matchesOf tab sel of [] \<Rightarrow> None | el # _ \<Rightarrow> Some el)),
       querySelectorAll = (\<lambda>sel. Inr (matchesOf tab sel)) \<rparr>"

text \<open>\<^verbatim>\<open>(el.innerText || el.textContent || "").trim()\<close> and
  \<^verbatim>\<open>(el.textContent || el.innerText || "").trim()\<close>.\<close>

definition textoInner :: "element \<Rightarrow> jsstring" where
  "textoInner el = trim (orElse (orElse (innerText el) (textContent el)) [])"

definition textoContent :: "element \<Rightarrow> jsstring" where
  "textoContent el = trim (orElse (orElse (textContent el) (innerText el)) [])"

section \<open>The strategy chain of \<^verbatim>\<open>baixarDescricaoVaga\<close> (lines 249-559)\<close>

subsection \<open>Keywords\<close>

definition nivelDeExperiencia :: jsstring where
  "nivelDeExperiencia = latin1 (''n'' @ [CHR 0xED] @ ''vel de experi'' @ [CHR 0xEA] @ ''ncia'')"

definition tipoDeEmprego :: jsstring where
  "tipoDeEmprego = latin1 ''tipo de emprego''"

definition funcao :: jsstring where
  "funcao = latin1 (''fun'' @ [CHR 0xE7, CHR 0xE3] @ ''o'')"

definition politica :: jsstring where
  "politica = latin1 (''pol'' @ [CHR 0xED] @ ''tica'')"

definition experiencia :: jsstring where
  "experiencia = latin1 (''experi'' @ [CHR 0xEA] @ ''ncia'')"

definition atribuicao :: jsstring where
  "atribuicao = latin1 (''atribui'' @ [CHR 0xE7, CHR 0xE3] @ ''o'')"

definition desejavel :: jsstring where
  "desejavel = latin1 (''desej'' @ [CHR 0xE1] @ ''vel'')"

definition beneficio :: jsstring where
  "beneficio = latin1 (''benef'' @ [CHR 0xED] @ ''cio'')"

definition salario :: jsstring where
  "salario = latin1 (''sal'' @ [CHR 0xE1] @ ''rio'')"

text \<open>The return value of line 558.\<close>

definition naoEncontrada :: jsstring where
  "naoEncontrada =
     latin1 (''Descri'' @ [CHR 0xE7, CHR 0xE3] @ ''o n'' @ [CHR 0xE3] @ ''o encontrada - n''
       @ [CHR 0xE3] @ ''o foi poss'' @ [CHR 0xED] @ ''vel localizar a descri''
       @ [CHR 0xE7, CHR 0xE3] @ ''o completa da vaga'')"

subsection \<open>Selectors\<close>

text \<open>The selectors of the queries, in the order of the source: the catalog of lines
  251-268, and the arguments of lines 318, 336, 378, 431, 454, 501, 525 and 576.\<close>

definition seletoresPrioritarios :: "string list" where
  \<open>seletoresPrioritarios =
     [''.show-more-less-html__markup'',
      ''.jobs-description-content__text'',
      ''[data-test-id="job-details-description"]'',
      ''.jobs-box__html-content'',
      ''.description__text'',
      ''.jobs-description__content'',
      ''div[class*="jobs-description"]'',
      ''section[class*="jobs-description"]'',
      ''[class*="description__text"]'',
      ''[class*="job-details"]'',
      ''.jobs-description__text'',
      ''[id*="job-details"]'',
      ''div[class*="jobs-details"]'',
      ''section[class*="jobs-details"]'',
      ''[data-test-id*="description"]'',
      ''[data-test-id*="job"]'']\<close>

definition seletorTestId :: string where
  \<open>seletorTestId =
     ''[data-test-id*="job"], [data-test-id*="description"], [data-test-id*="detail"]''\<close>

definition seletorAtributos :: string where
  \<open>seletorAtributos = ''[data-test-id], [class*="job"], [class*="description"]''\<close>

definition seletorSecoes :: string where
  "seletorSecoes = ''section, div, article''"

definition seletorDivs :: string where
  "seletorDivs = ''div, section''"

definition seletorElementos :: string where
  "seletorElementos = ''div, section, article, main''"

definition seletorPrincipais :: string where
  \<open>seletorPrincipais = ''main, article, [role="main"]''\<close>

definition seletorMain :: string where
  \<open>seletorMain = ''main, [role="main"], .jobs-search__job-details''\<close>

definition seletorTodos :: string where
  "seletorTodos = ''*''"

subsection \<open>Selector catalog (lines 270-314)\<close>

text \<open>Lines 276-290: the text of a catalog match, re-read from the detached \<^verbatim>\<open>div\<close>
  when it is shorter than 200 characters.\<close>

definition textoSeletor :: "element \<Rightarrow> jsstring" where
  "textoSeletor el =
     (let texto = orElse (orElse (innerText el) (textContent el)) []
      in if length (trim texto) < 200
         then orElse (orElse (tempDivInnerText el) (tempDivTextContent el)) texto
         else texto)"

definition negativasSeletor :: "jsstring list" where
  "negativasSeletor =
     [latin1 ''linkedin'', latin1 ''entrar'', latin1 ''cadastre-se'',
      politica @ latin1 '' de privacidade'', nivelDeExperiencia, tipoDeEmprego, funcao,
      latin1 ''setores'', latin1 ''assistente'', latin1 ''tempo integral'',
      latin1 (''tecnologia da informa'' @ [CHR 0xE7, CHR 0xE3] @ ''o''),
      latin1 ''desenvolvimento de software'']"

text \<open>Lines 293-307.\<close>

definition aceitaSeletor :: "jsstring \<Rightarrow> bool" where
  "aceitaSeletor textoLimpo = (length textoLimpo > 300 \<and> naoContem textoLimpo negativasSeletor)"

text \<open>The loop of lines 271-314. An exception of the query is caught by the
  \<^verbatim>\<open>try\<close> of the iteration, and the loop goes on with the next selector.\<close>

fun catalogo :: "document \<Rightarrow> string list \<Rightarrow> jsstring option" where
  "catalogo d [] = None"
| "catalogo d (seletor # resto) =
     (case querySelector d seletor of
        Inl e \<Rightarrow> catalogo d resto
      | Inr None \<Rightarrow> catalogo d resto
      | Inr (Some elemento) \<Rightarrow>
          (let textoLimpo = trim (textoSeletor elemento)
           in if aceitaSeletor textoLimpo then Some textoLimpo else catalogo d resto))"

subsection \<open>Fallback strategies (lines 316-556)\<close>

text \<open>A strategy either throws (an unguarded query threw), returns a text, or falls
  through (\<open>None\<close>). \<open>consulta\<close> is an unguarded \<^verbatim>\<open>document.querySelectorAll\<close> followed by
  a loop over its matches.\<close>

definition consulta ::
  "document \<Rightarrow> string \<Rightarrow> (element list \<Rightarrow> jsstring option) \<Rightarrow> jsstring + jsstring option" where
  "consulta d sel f = (case querySelectorAll d sel of Inl e \<Rightarrow> Inl e | Inr els \<Rightarrow> Inr (f els))"

text \<open>Lines 316-332: the first element with a \<^verbatim>\<open>data-test-id\<close> about jobs whose text
  passes.\<close>

definition negativasTestId :: "jsstring list" where
  "negativasTestId =
     [latin1 ''linkedin'', nivelDeExperiencia, tipoDeEmprego, funcao, latin1 ''setores'']"

definition aceitaTestId :: "jsstring \<Rightarrow> bool" where
  "aceitaTestId texto = (length texto > 500 \<and> naoContem texto negativasTestId)"

definition elementosTestId :: "document \<Rightarrow> jsstring + jsstring option" where
  "elementosTestId d = consulta d seletorTestId (\<lambda>els. find aceitaTestId (map textoInner els))"

text \<open>Lines 334-374.\<close>

definition palavrasChaveAtributos :: "jsstring list" where
  "palavrasChaveAtributos =
     [latin1 ''responsabilidade'', latin1 ''requisito'', experiencia, latin1 ''habilidade'',
      latin1 ''trabalho'', latin1 ''equipe'', latin1 ''desenvolvimento'', latin1 ''projeto'',
      latin1 ''tecnologia'', atribuicao, desejavel, latin1 ''diferencial'', beneficio, salario]"

definition negativasAtributos :: "jsstring list" where
  "negativasAtributos =
     [latin1 ''linkedin'', latin1 ''entrar'', latin1 ''cadastre-se'', politica, latin1 ''cookie'']"

definition aceitaAtributos :: "jsstring \<Rightarrow> bool" where
  "aceitaAtributos texto =
     (length texto > 300 \<and> naoContem texto negativasAtributos \<and>
      temPalavrasChave texto palavrasChaveAtributos)"

definition elementosComAtributos :: "document \<Rightarrow> jsstring + jsstring option" where
  "elementosComAtributos d =
     consulta d seletorAtributos (\<lambda>els. find aceitaAtributos (map textoContent els))"

text \<open>Lines 376-413: paragraph aggregation. The inner loop (lines 385-400) appends each
  passing fragment and a blank line to \<^verbatim>\<open>textoCompleto\<close> and counts it.\<close>

definition metadadosParagrafo :: "jsstring list" where
  "metadadosParagrafo =
     [nivelDeExperiencia, tipoDeEmprego, funcao, latin1 ''setores'', latin1 ''assistente'',
      latin1 ''tempo integral'']"

definition negativasSecao :: "jsstring list" where
  "negativasSecao = [latin1 ''linkedin'', latin1 ''entrar'', latin1 ''cadastre-se'']"

definition paragrafoValido :: "jsstring \<Rightarrow> bool" where
  "paragrafoValido textoP = (length textoP > 50 \<and> naoContem textoP metadadosParagrafo)"

fun juntaParagrafos :: "element list \<Rightarrow> jsstring \<times> nat \<Rightarrow> jsstring \<times> nat" where
  "juntaParagrafos [] acc = acc"
| "juntaParagrafos (p # ps) (textoCompleto, contadorParagrafos) =
     (let textoP = textoContent p
      in if paragrafoValido textoP
         then juntaParagrafos ps (textoCompleto @ textoP @ [0x0A, 0x0A], contadorParagrafos + 1)
         else juntaParagrafos ps (textoCompleto, contadorParagrafos))"

definition secaoComParagrafos :: "element \<Rightarrow> jsstring option" where
  "secaoComParagrafos secao =
     (case juntaParagrafos (paragrafos secao) ([], 0) of
        (textoCompleto, contadorParagrafos) \<Rightarrow>
          if contadorParagrafos \<ge> 3 \<and> length textoCompleto > 500
          then (let textoLimpo = trim textoCompleto
                in if naoContem textoLimpo negativasSecao then Some textoLimpo else None)
          else None)"

fun primeiraSecao :: "element list \<Rightarrow> jsstring option" where
  "primeiraSecao [] = None"
| "primeiraSecao (secao # resto) =
     (case secaoComParagrafos secao of Some t \<Rightarrow> Some t | None \<Rightarrow> primeiraSecao resto)"

definition secoesComParagrafos :: "document \<Rightarrow> jsstring + jsstring option" where
  "secoesComParagrafos d = consulta d seletorSecoes primeiraSecao"

text \<open>Lines 415-450.\<close>

definition palavrasChaveDescricao :: "jsstring list" where
  "palavrasChaveDescricao =
     [latin1 ''responsabilidade'', atribuicao, latin1 ''requisito'', desejavel,
      latin1 ''diferencial'', beneficio, salario, latin1 ''remoto'', latin1 ''presencial'',
      latin1 ''desenvolvimento'', latin1 ''projeto'', latin1 ''equipe'', latin1 ''tecnologia'']"

definition metadadosDiv :: "jsstring list" where
  "metadadosDiv =
     [nivelDeExperiencia, tipoDeEmprego, funcao, latin1 ''setores'', latin1 ''linkedin'']"

definition aceitaDiv :: "jsstring \<Rightarrow> bool" where
  "aceitaDiv texto =
     (length texto > 400 \<and> temPalavrasChave texto palavrasChaveDescricao \<and>
      naoContem texto metadadosDiv)"

definition todosDivs :: "document \<Rightarrow> jsstring + jsstring option" where
  "todosDivs d = consulta d seletorDivs (\<lambda>els. find aceitaDiv (map textoInner els))"

text \<open>Lines 452-497: the largest relevant block. The loop keeps the best text so far
  and its length, and replaces them only by a strictly longer text.\<close>

definition palavrasChaveBloco :: "jsstring list" where
  "palavrasChaveBloco =
     [latin1 ''responsabilidade'', latin1 ''requisito'', experiencia, latin1 ''habilidade'',
      atribuicao, desejavel, latin1 ''diferencial'', beneficio]"

definition negativasBloco :: "jsstring list" where
  "negativasBloco =
     [latin1 ''linkedin'', latin1 ''entrar'', latin1 ''cadastre-se'', politica, latin1 ''cookie'',
      latin1 ''sobre a linkedin'', latin1 ''acessibilidade'']"

definition blocoRelevante :: "jsstring \<Rightarrow> bool" where
  "blocoRelevante texto =
     (length texto > 500 \<and> naoContem texto negativasBloco \<and>
      temPalavrasChave texto palavrasChaveBloco)"

fun melhorElemento :: "jsstring list \<Rightarrow> jsstring option \<times> nat \<Rightarrow> jsstring option \<times> nat" where
  "melhorElemento [] acc = acc"
| "melhorElemento (texto # resto) (melhor, maiorTamanho) =
     (if blocoRelevante texto \<and> length texto > maiorTamanho
      then melhorElemento resto (Some texto, length texto)
      else melhorElemento resto (melhor, maiorTamanho))"

definition maiorBloco :: "element list \<Rightarrow> jsstring option" where
  "maiorBloco els =
     (case fst (melhorElemento (map textoContent els) (None, 0)) of
        None \<Rightarrow> None
      | Some t \<Rightarrow> if t = [] then None else Some t)"

definition todosElementos :: "document \<Rightarrow> jsstring + jsstring option" where
  "todosElementos d = consulta d seletorElementos maiorBloco"

text \<open>Lines 499-520: the text of a main element with the navigation words removed.\<close>

definition textoLimpoPrincipal :: "jsstring \<Rightarrow> jsstring" where
  "textoLimpoPrincipal texto =
     trim
      (removeAll_str sameLetter (latin1 ''Sobre a LinkedIn'')
        (removeAll_str sameLetter (latin1 ''Cookie'')
          (removeAll_str sameLetter (latin1 (''Pol'' @ [CHR 0xED] @ ''tica''))
            (removeAll_str sameLetter (latin1 ''Cadastre-se'')
              (removeAll_str sameLetter (latin1 ''Entrar'')
                (removeAll_str (=) (latin1 ''LinkedIn'') texto))))))"

definition elementosPrincipais :: "document \<Rightarrow> jsstring + jsstring option" where
  "elementosPrincipais d =
     consulta d seletorPrincipais
       (\<lambda>els. find (\<lambda>textoLimpo. length textoLimpo > 300)
                 (map textoLimpoPrincipal
                    (filter (\<lambda>texto. length texto > 500) (map textoContent els))))"

text \<open>Lines 522-556: the lines of the main content that pass the filter, when there are
  more than five of them.\<close>

definition negativasLinha :: "jsstring list" where
  "negativasLinha =
     [latin1 ''linkedin'', latin1 ''entrar'', nivelDeExperiencia, tipoDeEmprego, funcao,
      latin1 ''setores'', latin1 ''assistente'', latin1 ''tempo integral'',
      latin1 (''tecnologia da informa'' @ [CHR 0xE7, CHR 0xE3] @ ''o''),
      latin1 ''desenvolvimento de software'']"

definition linhaValida :: "jsstring \<Rightarrow> bool" where
  "linhaValida linha =
     (length (trim linha) > 20 \<and>
      list_all (\<lambda>k. \<not> includes_str (trim (toLowerCase linha)) k) negativasLinha)"

definition linhasDe :: "jsstring \<Rightarrow> jsstring option" where
  "linhasDe textoMain =
     (if length textoMain > 1000
      then (let linhas = filter linhaValida (split_str 0x0A textoMain)
            in if length linhas > 5 then Some (join_str [0x0A, 0x0A] linhas) else None)
      else None)"

definition mainContent :: "document \<Rightarrow> jsstring + jsstring option" where
  "mainContent d =
     (case querySelector d seletorMain of
        Inl e \<Rightarrow> Inl e
      | Inr None \<Rightarrow> Inr None
      | Inr (Some el) \<Rightarrow> Inr (linhasDe (textoInner el)))"

subsection \<open>The chain\<close>

text \<open>The callback of the first \<^verbatim>\<open>page.evaluate\<close> (lines 249-559) returns at the first
  strategy that finds a text, throws when an unguarded query throws before that, and
  returns the fixed text of line 558 when every strategy falls through.\<close>

fun emOrdem :: "(jsstring + jsstring option) list \<Rightarrow> jsstring + jsstring" where
  "emOrdem [] = Inr naoEncontrada"
| "emOrdem (r # rs) =
     (case r of
        Inl e \<Rightarrow> Inl e
      | Inr (Some t) \<Rightarrow> Inr t
      | Inr None \<Rightarrow> emOrdem rs)"

definition estrategias :: "document \<Rightarrow> (jsstring + jsstring option) list" where
  "estrategias d =
     [Inr (catalogo d seletoresPrioritarios), elementosTestId d, elementosComAtributos d,
      secoesComParagrafos d, todosDivs d, todosElementos d, elementosPrincipais d,
      mainContent d]"

definition descricaoDe :: "document \<Rightarrow> jsstring + jsstring" where
  "descricaoDe d = emOrdem (estrategias d)"

section \<open>\<^verbatim>\<open>baixarDescricaoVaga\<close> (lines 116-622)\<close>

text \<open>The callback of the second \<^verbatim>\<open>page.evaluate\<close> (lines 574-607): the first element of
  the page with a long text that names a description keyword and no metadata;
  \<open>None\<close> is \<^verbatim>\<open>null\<close>.\<close>

definition palavrasChaveAlternativa :: "jsstring list" where
  "palavrasChaveAlternativa =
     [latin1 ''responsabilidade'', atribuicao, latin1 ''requisito'', desejavel,
      latin1 ''desenvolvimento'']"

definition metadadosAlternativa :: "jsstring list" where
  "metadadosAlternativa = [nivelDeExperiencia, tipoDeEmprego, funcao, latin1 ''setores'']"

definition aceitaAlternativa :: "jsstring \<Rightarrow> bool" where
  "aceitaAlternativa texto =
     (length texto > 500 \<and> temPalavrasChave texto palavrasChaveAlternativa \<and>
      naoContem texto metadadosAlternativa \<and> naoContem texto [latin1 ''linkedin''])"

definition descricaoAlternativa :: "document \<Rightarrow> jsstring + jsstring option" where
  "descricaoAlternativa d =
     consulta d seletorTodos (\<lambda>els. find aceitaAlternativa (map textoInner els))"

text \<open>
  A call of \<^verbatim>\<open>baixarDescricaoVaga\<close> is determined by what the browser does:
  \<^item> \<open>preparo\<close>: the message of the first exception that escapes lines 118-246 (opening
    the page, navigating to the link, scrolling; the clicks and waits in between have
    their own \<^verbatim>\<open>try\<close>), if there is one;
  \<^item> \<open>primeiraPagina\<close>, \<open>segundaPagina\<close>: for each \<^verbatim>\<open>page.evaluate\<close>, the document its
    callback runs on, or the message of the exception when the browser cannot run it;
  \<^item> \<open>fechar\<close>: the message of the exception of \<^verbatim>\<open>page.close()\<close>, if it throws.
  An exception is represented by its \<^verbatim>\<open>message\<close>, which is all that the \<^verbatim>\<open>catch\<close>
  of lines 618-621 reads of it. The result is \<open>Inr\<close> of the returned string, or \<open>Inl\<close> of
  the message of an exception that leaves the function. The link only decides which
  page the browser opens, and the calls to \<^verbatim>\<open>console.log\<close> are left out.
\<close>

record sessao =
  preparo :: "jsstring option"
  primeiraPagina :: "jsstring + document"
  segundaPagina :: "jsstring + document"
  fechar :: "jsstring option"

definition evaluate :: "jsstring + document \<Rightarrow> (document \<Rightarrow> jsstring + 'a) \<Rightarrow> jsstring + 'a" where
  "evaluate pagina f = (case pagina of Inl e \<Rightarrow> Inl e | Inr d \<Rightarrow> f d)"

text \<open>The condition of lines 562-566.\<close>

definition incompleta :: "jsstring \<Rightarrow> bool" where
  "incompleta descricao =
     (length (trim descricao) < 300 \<or>
      includes_str (toLowerCase descricao) nivelDeExperiencia \<or>
      includes_str (toLowerCase descricao) tipoDeEmprego)"

definition fecharERetornar :: "sessao \<Rightarrow> jsstring \<Rightarrow> jsstring + jsstring" where
  "fecharERetornar s v = (case fechar s of Some e \<Rightarrow> Inl e | None \<Rightarrow> Inr v)"

text \<open>The body of the \<^verbatim>\<open>try\<close> (lines 118-617).\<close>

definition tentativa :: "sessao \<Rightarrow> jsstring + jsstring" where
  "tentativa s =
     (case preparo s of
        Some e \<Rightarrow> Inl e
      | None \<Rightarrow>
          (case evaluate (primeiraPagina s) descricaoDe of
             Inl e \<Rightarrow> Inl e
           | Inr descricao \<Rightarrow>
               if incompleta descricao
               then (case evaluate (segundaPagina s) descricaoAlternativa of
                       Inl e \<Rightarrow> Inl e
                     | Inr None \<Rightarrow> fecharERetornar s (trim descricao)
                     | Inr (Some alternativa) \<Rightarrow>
                         if alternativa \<noteq> [] \<and> length alternativa > 300
                         then fecharERetornar s (trim alternativa)
                         else fecharERetornar s (trim descricao))
               else fecharERetornar s (trim descricao)))"

text \<open>Lines 618-621: every exception is caught and its message returned after a fixed
  prefix.\<close>

definition erroAoBaixar :: jsstring where
  "erroAoBaixar = latin1 (''Erro ao baixar descri'' @ [CHR 0xE7, CHR 0xE3] @ ''o: '')"

definition baixarDescricaoVaga :: "sessao \<Rightarrow> jsstring + jsstring" where
  "baixarDescricaoVaga s =
     (case tentativa s of
        Inl message \<Rightarrow> Inr (erroAoBaixar @ message)
      | Inr descricao \<Rightarrow> Inr descricao)"

section \<open>Notions used in the statements\<close>

text \<open>A text that is not empty and neither starts nor ends with white space:
  \<^verbatim>\<open>trim\<close> leaves it as it is.\<close>

definition aparado :: "jsstring \<Rightarrow> bool" where
  "aparado s = (s \<noteq> [] \<and> \<not> isWhiteSpace (hd s) \<and> \<not> isWhiteSpace (last s))"

text \<open>The fragments of a container that the loop of lines 385-400 keeps, in document
  order.\<close>

definition fragmentos :: "element \<Rightarrow> jsstring list" where
  "fragmentos secao = filter paragrafoValido (map textoContent (paragrafos secao))"

text \<open>The selectors that the chain passes to \<^verbatim>\<open>document.querySelectorAll\<close>.\<close>

definition seletoresConsultados :: "string list" where
  "seletoresConsultados =
     [seletorTestId, seletorAtributos, seletorSecoes, seletorDivs, seletorElementos,
      seletorPrincipais]"

section \<open>Example pages and sessions\<close>

text \<open>
  The pages below are the inputs of the witnesses and counterexamples. Each one lists,
  for the selectors that match something on it, the matching elements in document
  order; the markup it stands for is given with it. \<open>comTexto t abaixo\<close> is an element
  whose \<^verbatim>\<open>innerText\<close> and \<^verbatim>\<open>textContent\<close> are both \<open>t\<close> (as is the text of its
  re-parsed markup) and that has the elements \<open>abaixo\<close> below it among
  \<^verbatim>\<open>p, li, div, span\<close>. \<open>0x78\<close> is the letter x, \<open>0x61\<close> the letter a and \<open>0x0A\<close> the
  line feed.
\<close>

definition comTexto :: "jsstring \<Rightarrow> element list \<Rightarrow> element" where
  "comTexto t abaixo = Element t t t t abaixo"

text \<open>A call in which nothing throws: the first \<^verbatim>\<open>page.evaluate\<close> sees \<open>d1\<close>, the
  second one \<open>d2\<close>.\<close>

definition sessaoDe :: "document \<Rightarrow> document \<Rightarrow> sessao" where
  "sessaoDe d1 d2 = \<lparr> preparo = None, primeiraPagina = Inr d1, segundaPagina = Inr d2, fechar = None \<rparr>"

text \<open>\<^verbatim>\<open><html><head></head><body></body></html>\<close>: the elements are \<^verbatim>\<open>html\<close>,
  \<^verbatim>\<open>head\<close> and \<^verbatim>\<open>body\<close>, all without text.\<close>

definition paginaVazia :: document where
  "paginaVazia = pageOf [(seletorTodos, [comTexto [] [], comTexto [] [], comTexto [] []])]"

text \<open>A \<^verbatim>\<open>body\<close> that holds one \<^verbatim>\<open><div class="jobs-box__html-content">\<close> with
  400 letters x.\<close>

definition texto400 :: jsstring where
  "texto400 = replicate 400 0x78"

definition paginaCatalogo :: document where
  "paginaCatalogo =
     (let caixa = comTexto texto400 []
      in pageOf
          [(''.jobs-box__html-content'', [caixa]),
           (seletorAtributos, [caixa]),
           (seletorSecoes, [caixa]),
           (seletorDivs, [caixa]),
           (seletorElementos, [caixa]),
           (seletorTodos, [comTexto texto400 [caixa], comTexto [] [], comTexto texto400 [caixa], caixa])])"

text \<open>\<open>paginaCatalogo\<close> when the query of the first catalog selector throws, and when
  every \<^verbatim>\<open>querySelectorAll\<close> throws.\<close>

definition paginaComErro :: document where
  "paginaComErro =
     paginaCatalogo
       \<lparr>querySelector :=
          (querySelector paginaCatalogo)(''.show-more-less-html__markup'' := Inl (latin1 ''SyntaxError''))\<rparr>"

definition paginaSoCatalogo :: document where
  "paginaSoCatalogo = paginaCatalogo\<lparr>querySelectorAll := (\<lambda>sel. Inl (latin1 ''Error''))\<rparr>"

text \<open>The empty page when the query of the \<^verbatim>\<open>data-test-id\<close> sweep throws.\<close>

definition paginaVaziaErro :: document where
  "paginaVaziaErro =
     paginaVazia
       \<lparr>querySelectorAll := (querySelectorAll paginaVazia)(seletorTestId := Inl (latin1 ''SyntaxError''))\<rparr>"

text \<open>A failed navigation, and a call on \<open>paginaCatalogo\<close> in which \<^verbatim>\<open>page.close()\<close>
  throws.\<close>

definition sessaoSemRede :: sessao where
  "sessaoSemRede =
     \<lparr> preparo = Some (latin1 ''net::ERR_NAME_NOT_RESOLVED''),
       primeiraPagina = Inr paginaVazia, segundaPagina = Inr paginaVazia, fechar = None \<rparr>"

definition sessaoSemFechar :: sessao where
  "sessaoSemFechar =
     \<lparr> preparo = None, primeiraPagina = Inr paginaCatalogo, segundaPagina = Inr paginaCatalogo,
       fechar = Some (latin1 ''Target closed'') \<rparr>"

text \<open>\<^verbatim>\<open><body class="jobs-search__job-details" style="white-space: pre-line">\<close> whose
  text is six lines of 21 letters a and a seventh line, \<^verbatim>\<open>linkedin\<close> followed by 1000
  letters x. \<open>textoLinhas\<close> is the six lines joined by blank lines.\<close>

definition linha21 :: jsstring where
  "linha21 = replicate 21 0x61"

definition linhaLinkedin :: jsstring where
  "linhaLinkedin = latin1 ''linkedin'' @ replicate 1000 0x78"

definition textoPaginaLinhas :: jsstring where
  "textoPaginaLinhas =
     linha21 @ 0x0A # linha21 @ 0x0A # linha21 @ 0x0A # linha21 @ 0x0A # linha21 @ 0x0A #
     linha21 @ 0x0A # linhaLinkedin"

definition textoLinhas :: jsstring where
  "textoLinhas = join_str [0x0A, 0x0A] [linha21, linha21, linha21, linha21, linha21, linha21]"

definition paginaLinhas :: document where
  \<open>paginaLinhas =
     (let corpo = comTexto textoPaginaLinhas []
      in pageOf
          [(''[class*="job-details"]'', [corpo]),
           (seletorAtributos, [corpo]),
           (seletorMain, [corpo]),
           (seletorTodos, [corpo, comTexto [] [], corpo])])\<close>

text \<open>\<^verbatim>\<open><body class="job-card">\<close> whose text is
  \<^verbatim>\<open>requisito tipo de emprego\<close>, a space and 300 letters x.\<close>

definition textoMetadados :: jsstring where
  "textoMetadados = latin1 ''requisito tipo de emprego '' @ replicate 300 0x78"

definition paginaMetadados :: document where
  "paginaMetadados =
     (let corpo = comTexto textoMetadados []
      in pageOf [(seletorAtributos, [corpo]), (seletorTodos, [corpo, comTexto [] [], corpo])])"

text \<open>\<^verbatim>\<open><body data-test-id="job-card">\<close> whose text is \<^verbatim>\<open>assistente\<close>, a space and
  500 letters x; and the same page when every \<^verbatim>\<open>querySelectorAll\<close> but the one of the
  \<^verbatim>\<open>data-test-id\<close> sweep throws.\<close>

definition textoAssistente :: jsstring where
  "textoAssistente = latin1 ''assistente '' @ replicate 500 0x78"

definition paginaTestId :: document where
  \<open>paginaTestId =
     (let corpo = comTexto textoAssistente []
      in pageOf
          [(''[data-test-id*="job"]'', [corpo]),
           (seletorTestId, [corpo]),
           (seletorAtributos, [corpo]),
           (seletorTodos, [corpo, comTexto [] [], corpo])])\<close>

definition paginaSoTestId :: document where
  "paginaSoTestId =
     paginaTestId
       \<lparr>querySelectorAll :=
          (\<lambda>sel. if sel = seletorTestId then querySelectorAll paginaTestId sel
                 else Inl (latin1 ''Error''))\<rparr>"

text \<open>Two blocks, the nine letters of \<open>desejavel\<close> followed by 500 and by 600 letters
  x.\<close>

definition bloco509 :: jsstring where
  "bloco509 = desejavel @ replicate 500 0x78"

definition bloco609 :: jsstring where
  "bloco609 = desejavel @ replicate 600 0x78"

text \<open>A \<^verbatim>\<open>body\<close> that holds \<^verbatim>\<open><p>linkedin</p>\<close> and two \<^verbatim>\<open>article\<close> elements
  with the two blocks, the shorter one first; the text of \<^verbatim>\<open>html\<close> and \<^verbatim>\<open>body\<close> is
  the three texts separated by blank lines.\<close>

definition textoTresBlocos :: jsstring where
  "textoTresBlocos = latin1 ''linkedin'' @ [0x0A, 0x0A] @ bloco509 @ [0x0A, 0x0A] @ bloco609"

definition paginaBlocos :: document where
  "paginaBlocos =
     (let p = comTexto (latin1 ''linkedin'') []; a1 = comTexto bloco509 []; a2 = comTexto bloco609 [];
        raiz = comTexto textoTresBlocos [p]
      in pageOf
          [(seletorSecoes, [a1, a2]),
           (seletorElementos, [a1, a2]),
           (seletorPrincipais, [a1, a2]),
           (seletorTodos, [raiz, comTexto [] [], raiz, p, a1, a2])])"

text \<open>A \<^verbatim>\<open>div\<close> with three paragraphs of 165 letters x, and one with four paragraphs
  of 150 letters x, alone in the \<^verbatim>\<open>body\<close> of a page.\<close>

definition paragrafo165 :: jsstring where
  "paragrafo165 = replicate 165 0x78"

definition secao3 :: element where
  "secao3 =
     (let p = comTexto paragrafo165 []
      in Element (join_str [0x0A, 0x0A] [paragrafo165, paragrafo165, paragrafo165])
           (paragrafo165 @ paragrafo165 @ paragrafo165)
           (join_str [0x0A, 0x0A] [paragrafo165, paragrafo165, paragrafo165])
           (paragrafo165 @ paragrafo165 @ paragrafo165)
           [p, p, p])"

definition paragrafo150 :: jsstring where
  "paragrafo150 = replicate 150 0x78"

definition secao4 :: element where
  "secao4 =
     (let p = comTexto paragrafo150 []
      in Element (join_str [0x0A, 0x0A] [paragrafo150, paragrafo150, paragrafo150, paragrafo150])
           (paragrafo150 @ paragrafo150 @ paragrafo150 @ paragrafo150)
           (join_str [0x0A, 0x0A] [paragrafo150, paragrafo150, paragrafo150, paragrafo150])
           (paragrafo150 @ paragrafo150 @ paragrafo150 @ paragrafo150)
           [p, p, p, p])"

definition paginaParagrafos :: document where
  "paginaParagrafos =
     (let p = comTexto paragrafo150 []; t = innerText secao4;
        raiz = Element t (textContent secao4) t (textContent secao4) [secao4, p, p, p, p]
      in pageOf
          [(seletorSecoes, [secao4]),
           (seletorDivs, [secao4]),
           (seletorElementos, [secao4]),
           (seletorTodos, [raiz, comTexto [] [], raiz, secao4, p, p, p, p])])"

section \<open>Strings\<close>

text \<open>\<^verbatim>\<open>trim\<close> on a text with no white space at its ends, and the length of a trimmed
  text between two texts that are not blank.\<close>

lemma dropWhile_hd: "s \<noteq> [] \<Longrightarrow> \<not> P (hd s) \<Longrightarrow> dropWhile P s = s"
  by (cases s) auto

lemma trim_aparado: "aparado s \<Longrightarrow> trim s = s"
proof -
  assume a: "aparado s"
  then have 1: "dropWhile isWhiteSpace s = s" by (simp add: aparado_def dropWhile_hd)
  from a have "dropWhile isWhiteSpace (rev s) = rev s"
    by (intro dropWhile_hd) (simp_all add: aparado_def hd_rev)
  with 1 show ?thesis by (simp add: trim_def)
qed

lemma trim_Nil_or_aparado: "trim s = [] \<or> aparado (trim s)"
proof (cases "trim s = []")
  case True then show ?thesis by simp
next
  case False
  let ?a = "dropWhile isWhiteSpace s"
  let ?b = "dropWhile isWhiteSpace (rev ?a)"
  have t: "trim s = rev ?b" by (simp add: trim_def)
  from False t have b: "?b \<noteq> []" by simp
  then have hb: "\<not> isWhiteSpace (hd ?b)" by (rule hd_dropWhile)
  from b have a: "?a \<noteq> []" by (metis dropWhile.simps(1) rev.simps(1))
  then have ha: "\<not> isWhiteSpace (hd ?a)" by (rule hd_dropWhile)
  have "last ?b = last (rev ?a)"
    using b by (metis dropWhile_eq_Nil_conv last_in_set last_appendR takeWhile_dropWhile_id)
  then have "last ?b = hd ?a" using a by (simp add: last_rev)
  then have "hd (rev ?b) = hd ?a" using b by (simp add: hd_rev)
  moreover have "last (rev ?b) = hd ?b" using b by (simp add: last_rev)
  ultimately show ?thesis using False t ha hb by (simp add: aparado_def)
qed

lemma trim_long_aparado: "length (trim s) > n \<Longrightarrow> aparado (trim s)"
  using trim_Nil_or_aparado [of s] by auto

lemma trim_nonws: "trim s \<noteq> [] \<Longrightarrow> \<exists>x \<in> set s. \<not> isWhiteSpace x"
proof -
  assume "trim s \<noteq> []"
  then have "dropWhile isWhiteSpace s \<noteq> []"
    unfolding trim_def by (metis dropWhile.simps(1) rev.simps(1))
  then show ?thesis by (simp add: dropWhile_eq_Nil_conv)
qed

lemma length_trim_dropWhile_rev:
  "length (trim s) \<le> length (dropWhile isWhiteSpace (rev s))"
proof (cases "trim s = []")
  case True then show ?thesis by simp
next
  case False
  let ?w = "takeWhile isWhiteSpace s" and ?a = "dropWhile isWhiteSpace s"
  from False have "?a \<noteq> []"
    unfolding trim_def by (metis dropWhile.simps(1) rev.simps(1))
  then have "\<not> isWhiteSpace (hd ?a)" by (rule hd_dropWhile)
  with \<open>?a \<noteq> []\<close> have "\<exists>x \<in> set (rev ?a). \<not> isWhiteSpace x"
    by (metis hd_in_set set_rev)
  then obtain x where x: "x \<in> set (rev ?a)" "\<not> isWhiteSpace x" by blast
  have "rev s = rev ?a @ rev ?w" by (metis rev_append takeWhile_dropWhile_id)
  then have "dropWhile isWhiteSpace (rev s) = dropWhile isWhiteSpace (rev ?a) @ rev ?w"
    using dropWhile_append1 [of x "rev ?a" isWhiteSpace] x by simp
  then show ?thesis by (simp add: trim_def)
qed

lemma trim_sandwich:
  assumes a: "trim a \<noteq> []" and b: "trim b \<noteq> []"
  shows "length (trim a) + length mid + length (trim b) \<le> length (trim (a @ mid @ b))"
proof -
  let ?P = isWhiteSpace
  from trim_nonws [OF a] obtain x where x: "x \<in> set a" "\<not> ?P x" by blast
  from trim_nonws [OF b] obtain y where y: "y \<in> set (rev b)" "\<not> ?P y" by auto
  have 1: "dropWhile ?P (a @ mid @ b) = dropWhile ?P a @ mid @ b"
    using dropWhile_append1 [of x a ?P] x by simp
  have 2: "dropWhile ?P (rev b @ rev mid @ rev (dropWhile ?P a))
      = dropWhile ?P (rev b) @ rev mid @ rev (dropWhile ?P a)"
    using dropWhile_append1 [of y "rev b" ?P] y by simp
  have "length (trim (a @ mid @ b))
      = length (dropWhile ?P (rev b)) + length mid + length (dropWhile ?P a)"
    by (simp add: trim_def 1 2)
  moreover have "length (trim a) \<le> length (dropWhile ?P a)"
    unfolding trim_def by (metis length_dropWhile_le length_rev)
  moreover note length_trim_dropWhile_rev [of b]
  ultimately show ?thesis by simp
qed

lemma length_trim_join:
  "linhas \<noteq> [] \<Longrightarrow> \<forall>l \<in> set linhas. k \<le> length (trim l) \<Longrightarrow> 0 < k \<Longrightarrow>
     k * length linhas + length sep * (length linhas - 1) \<le> length (trim (join_str sep linhas))"
proof (induction sep linhas rule: join_str.induct)
  case (1 sep)
  then show ?case by simp
next
  case (2 sep x)
  then show ?case by simp
next
  case (3 sep x y ys)
  then have ih: "k * length (y # ys) + length sep * (length (y # ys) - 1)
      \<le> length (trim (join_str sep (y # ys)))" by simp
  with 3 have ne: "trim (join_str sep (y # ys)) \<noteq> []" by auto
  from 3 have kx: "k \<le> length (trim x)" by simp
  with 3 have nx: "trim x \<noteq> []" by auto
  from trim_sandwich [OF nx ne, of sep] ih kx show ?case by (simp add: algebra_simps)
qed

lemma toLowerCase_id: "list_all (\<lambda>c. lowerUnits c = [c]) s \<Longrightarrow> toLowerCase s = s"
  by (induction s) (auto simp: toLowerCase_def)

lemma includes_str_set: "includes_str s p \<Longrightarrow> set p \<subseteq> set s"
  by (auto simp: includes_str_def sublist_def)

lemma includes_str_mid: "includes_str (a @ p @ b) p"
  by (auto simp: includes_str_def sublist_def)

lemma melhorElemento_none:
  "\<forall>c \<in> set xs. \<not> blocoRelevante c \<Longrightarrow> melhorElemento xs acc = acc"
  by (induction xs arbitrary: acc) (auto split: prod.splits)

lemma melhorElemento_inv:
  "melhorElemento xs (m, n) = (m', n') \<Longrightarrow>
     n \<le> n' \<and> (\<forall>c \<in> set xs. blocoRelevante c \<longrightarrow> length c \<le> n') \<and>
     ((m', n') = (m, n) \<or> (\<exists>t \<in> set xs. blocoRelevante t \<and> m' = Some t \<and> n' = length t))"
proof (induction xs arbitrary: m n)
  case Nil
  then show ?case by simp
next
  case (Cons x xs)
  show ?case
  proof (cases "blocoRelevante x \<and> length x > n")
    case True
    with Cons.prems have "melhorElemento xs (Some x, length x) = (m', n')" by simp
    from Cons.IH [OF this] True show ?thesis by auto
  next
    case False
    with Cons.prems have "melhorElemento xs (m, n) = (m', n')" by auto
    from Cons.IH [OF this] False show ?thesis by auto
  qed
qed

lemma naoContemI:
  "toLowerCase t = t \<Longrightarrow> list_all (\<lambda>k. \<not> set k \<subseteq> set t) ks \<Longrightarrow> naoContem t ks"
  using includes_str_set by (fastforce simp: naoContem_def list_all_iff)

lemma temPalavrasChaveI:
  "k \<in> set ks \<Longrightarrow> includes_str (toLowerCase t) k \<Longrightarrow> temPalavrasChave t ks"
  by (auto simp: temPalavrasChave_def list_ex_iff)

lemmas palavras =
  nivelDeExperiencia_def tipoDeEmprego_def funcao_def politica_def experiencia_def
  atribuicao_def desejavel_def beneficio_def salario_def latin1_def

section \<open>The strategies\<close>

text \<open>What each strategy returns when it returns a text: the acceptance test of the
  strategy holds of it, so it is long enough, and it is trimmed.\<close>

lemma emOrdem_Inr:
  "emOrdem rs = Inr t \<Longrightarrow> (\<exists>r \<in> set rs. r = Inr (Some t)) \<or> t = naoEncontrada"
  by (induction rs) (auto split: sum.splits option.splits)

lemma descricaoDe_cases:
  assumes "descricaoDe d = Inr t"
  shows "catalogo d seletoresPrioritarios = Some t \<or> elementosTestId d = Inr (Some t) \<or>
         elementosComAtributos d = Inr (Some t) \<or> secoesComParagrafos d = Inr (Some t) \<or>
         todosDivs d = Inr (Some t) \<or> todosElementos d = Inr (Some t) \<or>
         elementosPrincipais d = Inr (Some t) \<or> mainContent d = Inr (Some t) \<or>
         t = naoEncontrada"
  using emOrdem_Inr [OF assms [unfolded descricaoDe_def]]
  by (auto simp: estrategias_def)

lemma consulta_Some:
  "consulta d sel f = Inr (Some t) \<Longrightarrow> \<exists>els. querySelectorAll d sel = Inr els \<and> f els = Some t"
  by (auto simp: consulta_def split: sum.splits)

lemma find_map_Some:
  "find P (map f xs) = Some t \<Longrightarrow> P t \<and> (\<exists>x \<in> set xs. t = f x)"
  by (induction xs) (auto split: if_splits)

lemma aparado_textoInner: "n < length (textoInner el) \<Longrightarrow> aparado (textoInner el)"
  unfolding textoInner_def by (rule trim_long_aparado)

lemma aparado_textoContent: "n < length (textoContent el) \<Longrightarrow> aparado (textoContent el)"
  unfolding textoContent_def by (rule trim_long_aparado)

lemma catalogo_Some:
  "catalogo d sels = Some t \<Longrightarrow>
     aceitaSeletor t \<and>
     (\<exists>sel \<in> set sels. \<exists>el. querySelector d sel = Inr (Some el) \<and> t = trim (textoSeletor el))"
  by (induction sels) (auto simp: Let_def split: sum.splits option.splits if_splits)

lemma catalogo_long: "catalogo d sels = Some t \<Longrightarrow> length t > 300 \<and> aparado t"
  using catalogo_Some [of d sels t] trim_long_aparado by (auto simp: aceitaSeletor_def)

lemma elementosTestId_long: "elementosTestId d = Inr (Some t) \<Longrightarrow> length t > 500 \<and> aparado t"
  unfolding elementosTestId_def
  by (auto dest!: consulta_Some find_map_Some simp: aceitaTestId_def intro: aparado_textoInner)

lemma elementosComAtributos_long:
  "elementosComAtributos d = Inr (Some t) \<Longrightarrow> length t > 300 \<and> aparado t"
  unfolding elementosComAtributos_def
  by (auto dest!: consulta_Some find_map_Some simp: aceitaAtributos_def intro: aparado_textoContent)

lemma todosDivs_long: "todosDivs d = Inr (Some t) \<Longrightarrow> length t > 400 \<and> aparado t"
  unfolding todosDivs_def
  by (auto dest!: consulta_Some find_map_Some simp: aceitaDiv_def intro: aparado_textoInner)

lemma elementosPrincipais_long:
  "elementosPrincipais d = Inr (Some t) \<Longrightarrow> length t > 300 \<and> aparado t"
  unfolding elementosPrincipais_def
  by (auto dest!: consulta_Some find_map_Some simp: textoLimpoPrincipal_def intro: trim_long_aparado)

lemma juntaParagrafos_eq:
  "juntaParagrafos ps (acc, n) =
     (acc @ concat (map (\<lambda>t. t @ [0x0A, 0x0A]) (filter paragrafoValido (map textoContent ps))),
      n + length (filter paragrafoValido (map textoContent ps)))"
  by (induction ps arbitrary: acc n) (auto simp: Let_def)

lemma concat_terminated:
  "frs \<noteq> [] \<Longrightarrow> concat (map (\<lambda>t. t @ sep) frs) = join_str sep frs @ sep"
  by (induction sep frs rule: join_str.induct) auto

lemma aparado_join:
  "frs \<noteq> [] \<Longrightarrow> \<forall>f \<in> set frs. aparado f \<Longrightarrow> aparado (join_str sep frs)"
  by (induction sep frs rule: join_str.induct) (auto simp: aparado_def)

lemma trim_blank_line: "aparado j \<Longrightarrow> trim (j @ [0x0A, 0x0A]) = j"
proof -
  assume a: "aparado j"
  have ws: "isWhiteSpace 0x0A" by (simp add: isWhiteSpace_def)
  from a have 1: "dropWhile isWhiteSpace (j @ [0x0A, 0x0A]) = j @ [0x0A, 0x0A]"
    by (intro dropWhile_hd) (simp_all add: aparado_def)
  from a have "dropWhile isWhiteSpace (rev j) = rev j"
    by (intro dropWhile_hd) (simp_all add: aparado_def hd_rev)
  then have "dropWhile isWhiteSpace (rev (j @ [0x0A, 0x0A])) = rev j" using ws by simp
  with 1 show ?thesis by (simp add: trim_def)
qed

lemma aparado_fragmentos: "f \<in> set (fragmentos secao) \<Longrightarrow> aparado f"
  by (auto simp: fragmentos_def paragrafoValido_def intro: aparado_textoContent)

lemma secaoComParagrafos_eq:
  "secaoComParagrafos secao =
     (if length (fragmentos secao) \<ge> 3 \<and>
         length (join_str [0x0A, 0x0A] (fragmentos secao)) + 2 > 500 \<and>
         naoContem (join_str [0x0A, 0x0A] (fragmentos secao)) negativasSecao
      then Some (join_str [0x0A, 0x0A] (fragmentos secao)) else None)"
proof (cases "fragmentos secao = []")
  case True
  then show ?thesis
    by (simp add: secaoComParagrafos_def juntaParagrafos_eq fragmentos_def)
next
  case False
  let ?j = "join_str [0x0A, 0x0A] (fragmentos secao)"
  have c: "concat (map (\<lambda>t. t @ [0x0A, 0x0A]) (fragmentos secao)) = ?j @ [0x0A, 0x0A]"
    using False by (rule concat_terminated)
  have "aparado ?j" using False aparado_fragmentos by (intro aparado_join) auto
  then have t: "trim (?j @ [0x0A, 0x0A]) = ?j" by (rule trim_blank_line)
  show ?thesis
    using c t by (simp add: secaoComParagrafos_def juntaParagrafos_eq fragmentos_def [symmetric] Let_def)
qed

lemma primeiraSecao_Some:
  "primeiraSecao secoes = Some t \<Longrightarrow> \<exists>secao \<in> set secoes. secaoComParagrafos secao = Some t"
  by (induction secoes) (auto split: option.splits)

lemma secaoComParagrafos_long:
  "secaoComParagrafos secao = Some t \<Longrightarrow> length t > 498 \<and> aparado t"
proof -
  assume a: "secaoComParagrafos secao = Some t"
  let ?frs = "fragmentos secao"
  from a have t: "t = join_str [0x0A, 0x0A] ?frs" and n: "3 \<le> length ?frs"
    and l: "length t > 498"
    by (auto simp: secaoComParagrafos_eq split: if_splits)
  from n have "?frs \<noteq> []" by auto
  then have "aparado (join_str [0x0A, 0x0A] ?frs)"
    using aparado_fragmentos by (intro aparado_join) auto
  with t l show ?thesis by simp
qed

lemma secoesComParagrafos_long:
  "secoesComParagrafos d = Inr (Some t) \<Longrightarrow> length t > 498 \<and> aparado t"
  unfolding secoesComParagrafos_def
  by (auto dest!: consulta_Some primeiraSecao_Some secaoComParagrafos_long)

lemma maiorBloco_Some:
  "maiorBloco els = Some t \<Longrightarrow> blocoRelevante t \<and> (\<exists>el \<in> set els. t = textoContent el)"
proof -
  assume a: "maiorBloco els = Some t"
  obtain m n where mn: "melhorElemento (map textoContent els) (None, 0) = (m, n)"
    by (cases "melhorElemento (map textoContent els) (None, 0)")
  from a mn have "m = Some t" by (auto simp: maiorBloco_def split: option.splits if_splits)
  with melhorElemento_inv [OF mn] show ?thesis by auto
qed

lemma todosElementos_long: "todosElementos d = Inr (Some t) \<Longrightarrow> length t > 500 \<and> aparado t"
  unfolding todosElementos_def
  by (auto dest!: consulta_Some maiorBloco_Some simp: blocoRelevante_def intro: aparado_textoContent)

lemma linhasDe_Some:
  "linhasDe textoMain = Some t \<Longrightarrow>
     \<exists>linhas. t = join_str [0x0A, 0x0A] linhas \<and> length linhas > 5 \<and>
       (\<forall>l \<in> set linhas. linhaValida l)"
  by (auto simp: linhasDe_def Let_def split: if_splits)

lemma linhasDe_long: "linhasDe textoMain = Some t \<Longrightarrow> 136 \<le> length (trim t)"
proof -
  assume "linhasDe textoMain = Some t"
  from linhasDe_Some [OF this] obtain linhas where
    t: "t = join_str [0x0A, 0x0A] linhas" and n: "length linhas > 5"
    and v: "\<forall>l \<in> set linhas. linhaValida l" by blast
  from v have "\<forall>l \<in> set linhas. 21 \<le> length (trim l)" by (auto simp: linhaValida_def)
  moreover from n have "linhas \<noteq> []" by auto
  ultimately have "21 * length linhas + length [0x0A, 0x0A :: jschar] * (length linhas - 1)
      \<le> length (trim (join_str [0x0A, 0x0A] linhas))"
    by (intro length_trim_join) auto
  with n t show ?thesis by simp
qed

lemma mainContent_long: "mainContent d = Inr (Some t) \<Longrightarrow> 136 \<le> length (trim t)"
  by (auto simp: mainContent_def dest: linhasDe_long split: sum.splits option.splits)

section \<open>The chain and the orchestrator\<close>

text \<open>The catalog and the queries depend on the page only through the answers to the
  selectors they pass; a returned text comes from one of the strategies or is the fixed
  text of line 558.\<close>

lemma catalogo_cong:
  "\<forall>sel \<in> set sels. querySelector d' sel = querySelector d sel \<Longrightarrow>
     catalogo d' sels = catalogo d sels"
  by (induction sels) (auto simp: Let_def split: sum.splits option.splits)

lemma consulta_cong:
  "querySelectorAll d' sel = querySelectorAll d sel \<Longrightarrow> consulta d' sel f = consulta d sel f"
  by (simp add: consulta_def)

lemma catalogo_throw:
  "querySelector d sel = Inl e \<Longrightarrow>
     catalogo (d\<lparr>querySelector := (querySelector d)(sel := Inr None)\<rparr>) sels = catalogo d sels"
  by (induction sels) (auto simp: Let_def split: sum.splits option.splits)

lemma seletorMain_notin: "seletorMain \<notin> set seletoresPrioritarios"
  by (simp add: seletorMain_def seletoresPrioritarios_def)

lemma estrategias_throw:
  assumes "sel \<in> set seletoresPrioritarios" "querySelector d sel = Inl e"
  shows "estrategias (d\<lparr>querySelector := (querySelector d)(sel := Inr None)\<rparr>) = estrategias d"
proof -
  from assms(1) seletorMain_notin have "sel \<noteq> seletorMain" by auto
  then show ?thesis
    using catalogo_throw [OF assms(2)]
    by (simp add: estrategias_def elementosTestId_def elementosComAtributos_def
        secoesComParagrafos_def todosDivs_def todosElementos_def elementosPrincipais_def
        mainContent_def consulta_def seletorMain_def)
qed

lemma aparado_naoEncontrada: "aparado naoEncontrada"
  by (simp add: aparado_def naoEncontrada_def latin1_def isWhiteSpace_def)

lemma length_naoEncontrada: "length naoEncontrada = 82"
  by (simp add: naoEncontrada_def latin1_def)

lemma descricaoDe_result:
  assumes "descricaoDe d = Inr t"
  shows "t = naoEncontrada \<or> (300 < length t \<and> aparado t) \<or> mainContent d = Inr (Some t)"
  using descricaoDe_cases [OF assms] catalogo_long [of d seletoresPrioritarios t]
    elementosTestId_long [of d t] elementosComAtributos_long [of d t]
    secoesComParagrafos_long [of d t] todosDivs_long [of d t] todosElementos_long [of d t]
    elementosPrincipais_long [of d t]
  by auto

lemma descricaoAlternativa_Some:
  "descricaoAlternativa d = Inr (Some a) \<Longrightarrow> aceitaAlternativa a \<and> aparado a"
  unfolding descricaoAlternativa_def
  by (auto dest!: consulta_Some find_map_Some simp: aceitaAlternativa_def intro: aparado_textoInner)

lemma tentativa_Inr:
  assumes "tentativa s = Inr v"
  shows "preparo s = None \<and> fechar s = None \<and>
         (\<exists>d descricao. primeiraPagina s = Inr d \<and> descricaoDe d = Inr descricao \<and>
            (v = trim descricao \<or>
             (incompleta descricao \<and>
              (\<exists>d2. segundaPagina s = Inr d2 \<and> descricaoAlternativa d2 = Inr (Some v)))))"
proof -
  from assms have p: "preparo s = None" by (auto simp: tentativa_def split: option.splits)
  from assms p obtain d where d: "primeiraPagina s = Inr d"
    by (cases "primeiraPagina s") (auto simp: tentativa_def evaluate_def)
  from assms p d obtain descricao where dd: "descricaoDe d = Inr descricao"
    by (cases "descricaoDe d") (auto simp: tentativa_def evaluate_def)
  from assms have f: "fechar s = None"
    by (auto simp: tentativa_def fecharERetornar_def split: option.splits sum.splits if_splits)
  show ?thesis
  proof (cases "incompleta descricao")
    case False
    with assms p d dd f have "v = trim descricao"
      by (simp add: tentativa_def evaluate_def fecharERetornar_def)
    with p d dd f show ?thesis by simp
  next
    case True
    with assms p d dd obtain d2 where d2: "segundaPagina s = Inr d2"
      by (cases "segundaPagina s") (auto simp: tentativa_def evaluate_def)
    from assms p d dd True d2 obtain alt where alt: "descricaoAlternativa d2 = Inr alt"
      by (cases "descricaoAlternativa d2") (auto simp: tentativa_def evaluate_def)
    show ?thesis
    proof (cases alt)
      case None
      with assms p d dd True d2 alt f have "v = trim descricao"
        by (simp add: tentativa_def evaluate_def fecharERetornar_def)
      with p d dd f show ?thesis by simp
    next
      case (Some a)
      with alt have a: "aceitaAlternativa a" "aparado a"
        using descricaoAlternativa_Some by auto
      then have "a \<noteq> []" "length a > 300" "trim a = a"
        by (auto simp: aceitaAlternativa_def trim_aparado)
      with assms p d dd True d2 alt f Some have "v = a"
        by (simp add: tentativa_def evaluate_def fecharERetornar_def)
      with p d dd f True d2 alt Some show ?thesis by auto
    qed
  qed
qed

lemma erroAoBaixar_nonempty: "erroAoBaixar \<noteq> []"
  by (simp add: erroAoBaixar_def latin1_def)

lemma tentativa_nonempty: "tentativa s = Inr v \<Longrightarrow> v \<noteq> []"
proof -
  assume a: "tentativa s = Inr v"
  from tentativa_Inr [OF a] obtain d descricao where
    dd: "descricaoDe d = Inr descricao"
    and v: "v = trim descricao \<or> (\<exists>d2. descricaoAlternativa d2 = Inr (Some v))" by blast
  from v show ?thesis
  proof
    assume v: "v = trim descricao"
    from descricaoDe_result [OF dd] show ?thesis
    proof (elim disjE)
      assume "descricao = naoEncontrada"
      with v show ?thesis using trim_aparado [OF aparado_naoEncontrada] length_naoEncontrada by auto
    next
      assume "300 < length descricao \<and> aparado descricao"
      with v show ?thesis by (auto simp: trim_aparado)
    next
      assume "mainContent d = Inr (Some descricao)"
      from mainContent_long [OF this] v show ?thesis by auto
    qed
  next
    assume "\<exists>d2. descricaoAlternativa d2 = Inr (Some v)"
    then show ?thesis by (auto dest!: descricaoAlternativa_Some simp: aceitaAlternativa_def)
  qed
qed

lemma find_first:
  "(\<forall>x \<in> set pre. \<not> P (f x)) \<Longrightarrow> P (f el) \<Longrightarrow> find P (map f (pre @ el # post)) = Some (f el)"
  by (induction pre) auto

lemma find_none: "(\<forall>x \<in> set els. \<not> P (f x)) \<Longrightarrow> find P (map f els) = None"
  by (induction els) auto

lemma aceitaAlternativa_trimmed:
  "aceitaAlternativa (textoInner el) \<Longrightarrow>
     textoInner el \<noteq> [] \<and> 300 < length (textoInner el) \<and> trim (textoInner el) = textoInner el"
proof -
  assume a: "aceitaAlternativa (textoInner el)"
  then have "500 < length (textoInner el)" by (simp add: aceitaAlternativa_def)
  then have "aparado (textoInner el)" by (rule aparado_textoInner)
  with a show ?thesis by (auto simp: aceitaAlternativa_def trim_aparado)
qed

lemma maiorBloco_max:
  "(\<not> (\<exists>el \<in> set els. blocoRelevante (textoContent el)) \<longrightarrow> maiorBloco els = None) \<and>
   ((\<exists>el \<in> set els. blocoRelevante (textoContent el)) \<longrightarrow>
      (\<exists>el \<in> set els. maiorBloco els = Some (textoContent el) \<and> blocoRelevante (textoContent el) \<and>
         (\<forall>c \<in> set els. blocoRelevante (textoContent c) \<longrightarrow>
            length (textoContent c) \<le> length (textoContent el))))"
proof (intro conjI impI)
  assume "\<not> (\<exists>el \<in> set els. blocoRelevante (textoContent el))"
  then have "melhorElemento (map textoContent els) (None, 0) = (None, 0)"
    by (intro melhorElemento_none) auto
  then show "maiorBloco els = None" by (simp add: maiorBloco_def)
next
  assume "\<exists>el \<in> set els. blocoRelevante (textoContent el)"
  then obtain x where x: "x \<in> set els" "blocoRelevante (textoContent x)" by blast
  obtain m n where mn: "melhorElemento (map textoContent els) (None, 0) = (m, n)"
    by (cases "melhorElemento (map textoContent els) (None, 0)")
  note inv = melhorElemento_inv [OF mn]
  from inv x have "length (textoContent x) \<le> n" by auto
  moreover from x have "500 < length (textoContent x)" by (simp add: blocoRelevante_def)
  ultimately have "n \<noteq> 0" by auto
  with inv obtain el where el: "el \<in> set els" "blocoRelevante (textoContent el)"
    "m = Some (textoContent el)" "n = length (textoContent el)" by auto
  from el(2) have "textoContent el \<noteq> []" by (auto simp: blocoRelevante_def)
  with mn el have "maiorBloco els = Some (textoContent el)" by (simp add: maiorBloco_def)
  with el inv show "\<exists>el \<in> set els. maiorBloco els = Some (textoContent el) \<and>
      blocoRelevante (textoContent el) \<and>
      (\<forall>c \<in> set els. blocoRelevante (textoContent c) \<longrightarrow>
         length (textoContent c) \<le> length (textoContent el))"
    by auto
qed

lemma emOrdem_Inl:
  "emOrdem rs = Inl e \<Longrightarrow> Inl e \<in> set rs"
  by (induction rs) (auto split: sum.splits option.splits)

lemma consulta_Inl: "consulta d q f = Inl e \<longleftrightarrow> querySelectorAll d q = Inl e"
  by (auto simp: consulta_def split: sum.splits)

lemma mainContent_Inl: "mainContent d = Inl e \<longleftrightarrow> querySelector d seletorMain = Inl e"
  by (auto simp: mainContent_def split: sum.splits option.splits)

lemma descricaoDe_Inl:
  assumes "descricaoDe d = Inl e"
  shows "(\<exists>q \<in> set seletoresConsultados. querySelectorAll d q = Inl e) \<or>
         querySelector d seletorMain = Inl e"
proof -
  from emOrdem_Inl [OF assms [unfolded descricaoDe_def]]
  have "Inl e \<in> set (estrategias d)" .
  then show ?thesis
    by (auto simp: estrategias_def elementosTestId_def elementosComAtributos_def
        secoesComParagrafos_def todosDivs_def todosElementos_def elementosPrincipais_def
        consulta_Inl mainContent_Inl seletoresConsultados_def dest: sym)
qed

lemma descricaoDe_no_throw:
  assumes "\<forall>q \<in> set seletoresConsultados. \<not> isl (querySelectorAll d q)"
    "\<not> isl (querySelector d seletorMain)"
  shows "\<exists>t. descricaoDe d = Inr t"
proof (cases "descricaoDe d")
  case (Inl e)
  from descricaoDe_Inl [OF Inl] assms show ?thesis by auto
next
  case (Inr t)
  then show ?thesis by simp
qed

section \<open>The example pages, evaluated\<close>

lemmas seletores =
  seletoresPrioritarios_def seletorTestId_def seletorAtributos_def seletorSecoes_def
  seletorDivs_def seletorElementos_def seletorPrincipais_def seletorMain_def seletorTodos_def

lemma textoInner_comTexto: "trim t = t \<Longrightarrow> textoInner (comTexto t abaixo) = t"
  by (simp add: textoInner_def comTexto_def orElse_def)

lemma textoContent_comTexto: "trim t = t \<Longrightarrow> textoContent (comTexto t abaixo) = t"
  by (simp add: textoContent_def comTexto_def orElse_def)

lemma trim_Nil: "trim [] = []"
  by (simp add: trim_def)

lemma descricaoDe_paginaVazia: "descricaoDe paginaVazia = Inr naoEncontrada"
  by (simp add: descricaoDe_def estrategias_def paginaVazia_def pageOf_def matchesOf_def seletores
      elementosTestId_def elementosComAtributos_def secoesComParagrafos_def todosDivs_def
      todosElementos_def elementosPrincipais_def mainContent_def consulta_def maiorBloco_def)

lemma aparado_texto400: "aparado texto400"
  by (simp add: aparado_def texto400_def isWhiteSpace_def)

lemma lower_texto400: "toLowerCase texto400 = texto400"
  by (rule toLowerCase_id) (simp add: texto400_def lowerUnits_def list_all_iff)

lemma aceitaSeletor_texto400: "aceitaSeletor texto400"
  unfolding aceitaSeletor_def
proof
  show "300 < length texto400" by (simp add: texto400_def)
  show "naoContem texto400 negativasSeletor"
    by (rule naoContemI [OF lower_texto400]) (simp add: texto400_def negativasSeletor_def palavras)
qed

lemma textoSeletor_comTexto: "200 \<le> length (trim t) \<Longrightarrow> textoSeletor (comTexto t abaixo) = t"
  by (auto simp: textoSeletor_def comTexto_def orElse_def Let_def)

lemma catalogo_paginaCatalogo: "catalogo paginaCatalogo seletoresPrioritarios = Some texto400"
proof -
  have t: "trim texto400 = texto400" by (rule trim_aparado [OF aparado_texto400])
  have "textoSeletor (comTexto texto400 []) = texto400"
    by (rule textoSeletor_comTexto) (simp add: t, simp add: texto400_def)
  then show ?thesis
    by (simp add: paginaCatalogo_def pageOf_def matchesOf_def seletores Let_def t aceitaSeletor_texto400)
qed

lemma descricaoDe_paginaCatalogo: "descricaoDe paginaCatalogo = Inr texto400"
  by (simp add: descricaoDe_def estrategias_def catalogo_paginaCatalogo)

lemma trim_naoEncontrada: "trim naoEncontrada = naoEncontrada"
  by (rule trim_aparado [OF aparado_naoEncontrada])

lemma incompleta_naoEncontrada: "incompleta naoEncontrada"
  by (simp add: incompleta_def trim_naoEncontrada length_naoEncontrada)

lemma not_aceitaAlternativa_short: "length t \<le> 500 \<Longrightarrow> \<not> aceitaAlternativa t"
  by (simp add: aceitaAlternativa_def)

lemma descricaoAlternativa_paginaCatalogo: "descricaoAlternativa paginaCatalogo = Inr None"
proof -
  have t: "trim texto400 = texto400" by (rule trim_aparado [OF aparado_texto400])
  have n: "\<not> aceitaAlternativa texto400" "\<not> aceitaAlternativa []"
    by (rule not_aceitaAlternativa_short, simp add: texto400_def)+
  show ?thesis
    by (simp add: descricaoAlternativa_def consulta_def paginaCatalogo_def pageOf_def
        matchesOf_def seletores Let_def textoInner_comTexto t trim_Nil n)
qed

lemma baixar_vazia_catalogo:
  "baixarDescricaoVaga (sessaoDe paginaVazia paginaCatalogo) = Inr naoEncontrada"
  by (simp add: baixarDescricaoVaga_def tentativa_def sessaoDe_def evaluate_def
      descricaoDe_paginaVazia incompleta_naoEncontrada descricaoAlternativa_paginaCatalogo
      fecharERetornar_def trim_naoEncontrada)

lemma includes_str_prefix: "includes_str (p @ b) p"
  using includes_str_mid [of "[]" p b] by simp

lemma includes_str_appendR: "includes_str b p \<Longrightarrow> includes_str (a @ b) p"
  by (auto simp: includes_str_def sublist_def) (metis append.assoc)

lemma includes_str_Cons: "includes_str b p \<Longrightarrow> includes_str (x # b) p"
  using includes_str_appendR [of b p "[x]"] by simp

lemma split_str_nosep: "sep \<notin> set a \<Longrightarrow> split_str sep a = [a]"
  by (induction a) auto

lemma split_str_append:
  "sep \<notin> set a \<Longrightarrow> split_str sep (a @ sep # b) = a # split_str sep b"
  by (induction a) auto

lemma split_textoPaginaLinhas:
  "split_str 0x0A textoPaginaLinhas =
     [linha21, linha21, linha21, linha21, linha21, linha21, linhaLinkedin]"
proof -
  have 1: "0x0A \<notin> set linha21" by (simp add: linha21_def)
  have 2: "0x0A \<notin> set linhaLinkedin" by (simp add: linhaLinkedin_def latin1_def)
  show ?thesis
    unfolding textoPaginaLinhas_def by (simp only: split_str_append [OF 1] split_str_nosep [OF 2])
qed

lemma aparado_linha21: "aparado linha21"
  by (simp add: aparado_def linha21_def isWhiteSpace_def)

lemma lower_linha21: "toLowerCase linha21 = linha21"
  by (rule toLowerCase_id) (simp add: linha21_def lowerUnits_def list_all_iff)

lemma linhaValida_linha21: "linhaValida linha21"
proof -
  have "naoContem linha21 negativasLinha"
    by (rule naoContemI [OF lower_linha21]) (simp add: linha21_def negativasLinha_def palavras)
  then show ?thesis
    by (simp add: linhaValida_def naoContem_def lower_linha21 trim_aparado [OF aparado_linha21])
       (simp add: linha21_def)
qed

lemma aparado_linhaLinkedin: "aparado linhaLinkedin"
  by (simp add: aparado_def linhaLinkedin_def latin1_def isWhiteSpace_def)

lemma lower_linhaLinkedin: "toLowerCase linhaLinkedin = linhaLinkedin"
  by (rule toLowerCase_id) (simp add: linhaLinkedin_def latin1_def lowerUnits_def list_all_iff)

lemma not_linhaValida_linhaLinkedin: "\<not> linhaValida linhaLinkedin"
proof -
  have "includes_str linhaLinkedin (latin1 ''linkedin'')"
    unfolding linhaLinkedin_def by (rule includes_str_prefix)
  then show ?thesis
    by (simp add: linhaValida_def lower_linhaLinkedin trim_aparado [OF aparado_linhaLinkedin]
        negativasLinha_def)
qed

lemma aparado_textoPaginaLinhas: "aparado textoPaginaLinhas"
  by (simp add: aparado_def textoPaginaLinhas_def linha21_def linhaLinkedin_def latin1_def
      isWhiteSpace_def)

lemma trim_textoPaginaLinhas: "trim textoPaginaLinhas = textoPaginaLinhas"
  by (rule trim_aparado [OF aparado_textoPaginaLinhas])

lemma lower_textoPaginaLinhas: "toLowerCase textoPaginaLinhas = textoPaginaLinhas"
  by (rule toLowerCase_id)
     (simp add: textoPaginaLinhas_def linha21_def linhaLinkedin_def latin1_def lowerUnits_def
       list_all_iff)

lemma linkedin_textoPaginaLinhas:
  "includes_str (toLowerCase textoPaginaLinhas) (latin1 ''linkedin'')"
proof -
  have "includes_str linhaLinkedin (latin1 ''linkedin'')"
    unfolding linhaLinkedin_def by (rule includes_str_prefix)
  then have "includes_str textoPaginaLinhas (latin1 ''linkedin'')"
    unfolding textoPaginaLinhas_def
    by (intro includes_str_appendR includes_str_Cons)
  then show ?thesis by (simp add: lower_textoPaginaLinhas)
qed

lemma length_textoPaginaLinhas: "length textoPaginaLinhas = 1140"
  by (simp add: textoPaginaLinhas_def linha21_def linhaLinkedin_def latin1_def)

lemma not_aceita_textoPaginaLinhas:
  "\<not> aceitaSeletor textoPaginaLinhas" "\<not> aceitaAtributos textoPaginaLinhas"
  "\<not> aceitaAlternativa textoPaginaLinhas"
  using linkedin_textoPaginaLinhas
  by (simp_all add: aceitaSeletor_def aceitaAtributos_def aceitaAlternativa_def naoContem_def
      negativasSeletor_def negativasAtributos_def)

lemma linhasDe_textoPaginaLinhas: "linhasDe textoPaginaLinhas = Some textoLinhas"
  by (simp add: linhasDe_def length_textoPaginaLinhas split_textoPaginaLinhas
      linhaValida_linha21 not_linhaValida_linhaLinkedin textoLinhas_def)

lemma descricaoDe_paginaLinhas: "descricaoDe paginaLinhas = Inr textoLinhas"
proof -
  have "textoSeletor (comTexto textoPaginaLinhas []) = textoPaginaLinhas"
    by (rule textoSeletor_comTexto) (simp add: trim_textoPaginaLinhas length_textoPaginaLinhas)
  then have c: "catalogo paginaLinhas seletoresPrioritarios = None"
    by (simp add: paginaLinhas_def pageOf_def matchesOf_def seletores Let_def
        trim_textoPaginaLinhas not_aceita_textoPaginaLinhas)
  have r: "elementosTestId paginaLinhas = Inr None" "elementosComAtributos paginaLinhas = Inr None"
    "secoesComParagrafos paginaLinhas = Inr None" "todosDivs paginaLinhas = Inr None"
    "todosElementos paginaLinhas = Inr None" "elementosPrincipais paginaLinhas = Inr None"
    "mainContent paginaLinhas = Inr (Some textoLinhas)"
    by (simp_all add: paginaLinhas_def pageOf_def matchesOf_def
        seletores Let_def elementosTestId_def elementosComAtributos_def secoesComParagrafos_def
        todosDivs_def todosElementos_def elementosPrincipais_def mainContent_def consulta_def
        maiorBloco_def textoInner_comTexto textoContent_comTexto trim_textoPaginaLinhas
        not_aceita_textoPaginaLinhas linhasDe_textoPaginaLinhas)
  show ?thesis
    by (simp add: descricaoDe_def estrategias_def c r)
qed

lemma aparado_textoLinhas: "aparado textoLinhas"
  by (simp add: aparado_def textoLinhas_def linha21_def isWhiteSpace_def)

lemma length_textoLinhas: "length textoLinhas = 136"
  by (simp add: textoLinhas_def linha21_def)

lemma descricaoAlternativa_paginaLinhas: "descricaoAlternativa paginaLinhas = Inr None"
proof -
  have n: "\<not> aceitaAlternativa []" by (rule not_aceitaAlternativa_short) simp
  show ?thesis
    by (simp add: descricaoAlternativa_def consulta_def paginaLinhas_def pageOf_def
        matchesOf_def seletores Let_def textoInner_comTexto trim_textoPaginaLinhas trim_Nil n
        not_aceita_textoPaginaLinhas)
qed

lemma baixar_paginaLinhas:
  "baixarDescricaoVaga (sessaoDe paginaLinhas paginaLinhas) = Inr textoLinhas"
  by (simp add: baixarDescricaoVaga_def tentativa_def sessaoDe_def evaluate_def
      descricaoDe_paginaLinhas incompleta_def descricaoAlternativa_paginaLinhas
      fecharERetornar_def trim_aparado [OF aparado_textoLinhas] length_textoLinhas)

lemma aparado_textoMetadados: "aparado textoMetadados"
  by (simp add: aparado_def textoMetadados_def latin1_def isWhiteSpace_def)

lemma trim_textoMetadados: "trim textoMetadados = textoMetadados"
  by (rule trim_aparado [OF aparado_textoMetadados])

lemma lower_textoMetadados: "toLowerCase textoMetadados = textoMetadados"
  by (rule toLowerCase_id) (simp add: textoMetadados_def latin1_def lowerUnits_def list_all_iff)

lemma length_textoMetadados: "length textoMetadados = 326"
  by (simp add: textoMetadados_def latin1_def)

lemma tipoDeEmprego_textoMetadados: "includes_str (toLowerCase textoMetadados) tipoDeEmprego"
proof -
  have "textoMetadados = latin1 ''requisito '' @ tipoDeEmprego @ (0x20 # replicate 300 0x78)"
    by (simp add: textoMetadados_def tipoDeEmprego_def latin1_def)
  then show ?thesis by (metis includes_str_mid lower_textoMetadados)
qed

lemma aceitaAtributos_textoMetadados: "aceitaAtributos textoMetadados"
  unfolding aceitaAtributos_def
proof (intro conjI)
  show "300 < length textoMetadados" by (simp add: length_textoMetadados)
  show "naoContem textoMetadados negativasAtributos"
    by (rule naoContemI [OF lower_textoMetadados])
       (simp add: textoMetadados_def negativasAtributos_def palavras)
  have "includes_str textoMetadados (latin1 ''requisito'')"
    unfolding textoMetadados_def
    using includes_str_prefix [of "latin1 ''requisito''" "latin1 '' tipo de emprego '' @ replicate 300 0x78"]
    by (simp add: latin1_def)
  then show "temPalavrasChave textoMetadados palavrasChaveAtributos"
    by (intro temPalavrasChaveI [where k = "latin1 ''requisito''"])
       (simp_all add: palavrasChaveAtributos_def lower_textoMetadados)
qed

lemma descricaoDe_paginaMetadados: "descricaoDe paginaMetadados = Inr textoMetadados"
proof -
  have c: "catalogo paginaMetadados seletoresPrioritarios = None"
    by (simp add: paginaMetadados_def pageOf_def matchesOf_def seletores Let_def)
  have r: "elementosTestId paginaMetadados = Inr None"
    "elementosComAtributos paginaMetadados = Inr (Some textoMetadados)"
    by (simp_all add: paginaMetadados_def pageOf_def matchesOf_def seletores Let_def
        elementosTestId_def elementosComAtributos_def consulta_def textoContent_comTexto
        trim_textoMetadados aceitaAtributos_textoMetadados)
  show ?thesis by (simp add: descricaoDe_def estrategias_def c r)
qed

lemma descricaoAlternativa_paginaMetadados: "descricaoAlternativa paginaMetadados = Inr None"
proof -
  have n: "\<not> aceitaAlternativa []" "\<not> aceitaAlternativa textoMetadados"
    by (rule not_aceitaAlternativa_short, simp add: length_textoMetadados)+
  show ?thesis
    by (simp add: descricaoAlternativa_def consulta_def paginaMetadados_def pageOf_def
        matchesOf_def seletores Let_def textoInner_comTexto trim_textoMetadados trim_Nil n)
qed

lemma baixar_paginaMetadados:
  "baixarDescricaoVaga (sessaoDe paginaMetadados paginaMetadados) = Inr textoMetadados"
  using tipoDeEmprego_textoMetadados
  by (simp add: baixarDescricaoVaga_def tentativa_def sessaoDe_def evaluate_def
      descricaoDe_paginaMetadados incompleta_def descricaoAlternativa_paginaMetadados
      fecharERetornar_def trim_textoMetadados)

lemma aparado_textoAssistente: "aparado textoAssistente"
  by (simp add: aparado_def textoAssistente_def latin1_def isWhiteSpace_def)

lemma trim_textoAssistente: "trim textoAssistente = textoAssistente"
  by (rule trim_aparado [OF aparado_textoAssistente])

lemma lower_textoAssistente: "toLowerCase textoAssistente = textoAssistente"
  by (rule toLowerCase_id) (simp add: textoAssistente_def latin1_def lowerUnits_def list_all_iff)

lemma length_textoAssistente: "length textoAssistente = 511"
  by (simp add: textoAssistente_def latin1_def)

lemma not_aceitaSeletor_textoAssistente: "\<not> aceitaSeletor textoAssistente"
proof -
  have "textoAssistente = latin1 ''assistente'' @ (0x20 # replicate 500 0x78)"
    by (simp add: textoAssistente_def latin1_def)
  then have "includes_str (toLowerCase textoAssistente) (latin1 ''assistente'')"
    by (metis includes_str_prefix lower_textoAssistente)
  then show ?thesis
    by (simp add: aceitaSeletor_def naoContem_def negativasSeletor_def)
qed

lemma aceitaTestId_textoAssistente: "aceitaTestId textoAssistente"
  unfolding aceitaTestId_def
proof
  show "500 < length textoAssistente" by (simp add: length_textoAssistente)
  show "naoContem textoAssistente negativasTestId"
    by (rule naoContemI [OF lower_textoAssistente])
       (simp add: textoAssistente_def negativasTestId_def palavras)
qed

lemma catalogo_paginaTestId: "catalogo paginaTestId seletoresPrioritarios = None"
proof -
  have "textoSeletor (comTexto textoAssistente []) = textoAssistente"
    by (rule textoSeletor_comTexto) (simp add: trim_textoAssistente length_textoAssistente)
  then show ?thesis
    by (simp add: paginaTestId_def pageOf_def matchesOf_def seletores Let_def
        trim_textoAssistente not_aceitaSeletor_textoAssistente)
qed

lemma elementosTestId_paginaTestId: "elementosTestId paginaTestId = Inr (Some textoAssistente)"
  by (simp add: paginaTestId_def pageOf_def matchesOf_def seletores Let_def elementosTestId_def
      consulta_def textoInner_comTexto trim_textoAssistente aceitaTestId_textoAssistente)

lemma blocoRelevante_desejavel:
  assumes "0 < n" "491 < n"
  shows "blocoRelevante (desejavel @ replicate n 0x78)"
    and "textoContent (comTexto (desejavel @ replicate n 0x78) abaixo)
           = desejavel @ replicate n 0x78"
proof -
  let ?t = "desejavel @ replicate n 0x78"
  have l: "toLowerCase ?t = ?t"
    by (rule toLowerCase_id) (simp add: palavras lowerUnits_def list_all_iff)
  show "blocoRelevante ?t"
    unfolding blocoRelevante_def
  proof (intro conjI)
    show "500 < length ?t" using assms by (simp add: palavras)
    show "naoContem ?t negativasBloco"
      using assms by (intro naoContemI [OF l]) (simp add: negativasBloco_def palavras)
    show "temPalavrasChave ?t palavrasChaveBloco"
      by (rule temPalavrasChaveI [where k = desejavel])
         (simp_all add: palavrasChaveBloco_def l includes_str_prefix)
  qed
  have "aparado ?t" using assms by (simp add: aparado_def palavras isWhiteSpace_def)
  then show "textoContent (comTexto ?t abaixo) = ?t"
    by (intro textoContent_comTexto trim_aparado)
qed

lemma texto_x:
  assumes "0 < n"
  shows "textoContent (comTexto (replicate n 0x78) abaixo) = replicate n 0x78"
    and "toLowerCase (replicate n 0x78) = replicate n 0x78"
    and "50 < n \<Longrightarrow> paragrafoValido (replicate n 0x78)"
proof -
  let ?t = "replicate n (0x78 :: jschar)"
  have "aparado ?t" using assms by (simp add: aparado_def isWhiteSpace_def)
  then show "textoContent (comTexto ?t abaixo) = ?t"
    by (intro textoContent_comTexto trim_aparado)
  show l: "toLowerCase ?t = ?t"
    by (rule toLowerCase_id) (simp add: lowerUnits_def list_all_iff)
  show "paragrafoValido ?t" if "50 < n"
    unfolding paragrafoValido_def
  proof
    show "50 < length ?t" using that by simp
    show "naoContem ?t metadadosParagrafo"
      using assms by (intro naoContemI [OF l]) (simp add: metadadosParagrafo_def palavras)
  qed
qed

lemma fragmentos_secao3: "fragmentos secao3 = [paragrafo165, paragrafo165, paragrafo165]"
  by (simp add: fragmentos_def secao3_def Let_def paragrafo165_def texto_x)

lemma fragmentos_secao4:
  "map textoContent (paragrafos secao4) = [paragrafo150, paragrafo150, paragrafo150, paragrafo150]"
  by (simp add: secao4_def Let_def paragrafo150_def texto_x)

lemma naoContem_juncao:
  assumes "0 < n"
  shows "naoContem (join_str [0x0A, 0x0A] (replicate (Suc k) (replicate n 0x78))) negativasSecao"
proof -
  let ?j = "join_str [0x0A, 0x0A] (replicate (Suc k) (replicate n (0x78 :: jschar)))"
  have s: "set ?j \<subseteq> {0x0A, 0x78}"
    by (induction k) auto
  then have "list_all (\<lambda>c. lowerUnits c = [c]) ?j"
    by (auto simp: list_all_iff lowerUnits_def)
  then have l: "toLowerCase ?j = ?j" by (rule toLowerCase_id)
  have "\<not> set k' \<subseteq> set ?j" if "k' \<in> set negativasSecao" for k'
  proof
    assume "set k' \<subseteq> set ?j"
    with s have "set k' \<subseteq> {0x0A, 0x78}" by blast
    with that show False by (auto simp: negativasSecao_def latin1_def)
  qed
  then show ?thesis by (intro naoContemI [OF l]) (simp add: list_all_iff)
qed

lemma secaoComParagrafos_secao3:
  "secaoComParagrafos secao3 = Some (join_str [0x0A, 0x0A] [paragrafo165, paragrafo165, paragrafo165])"
proof -
  have "naoContem (join_str [0x0A, 0x0A] (replicate (Suc 2) (replicate 165 0x78))) negativasSecao"
    by (rule naoContem_juncao) simp
  then have "naoContem (join_str [0x0A, 0x0A] [paragrafo165, paragrafo165, paragrafo165]) negativasSecao"
    by (simp add: paragrafo165_def numeral_2_eq_2)
  then show ?thesis
    by (simp add: secaoComParagrafos_eq fragmentos_secao3) (simp add: paragrafo165_def)
qed

lemma catalogo_paginaParagrafos: "catalogo paginaParagrafos seletoresPrioritarios = None"
  by (simp add: paginaParagrafos_def pageOf_def matchesOf_def seletores Let_def)

lemma sweeps_paginaParagrafos:
  "elementosTestId paginaParagrafos = Inr None" "elementosComAtributos paginaParagrafos = Inr None"
  "querySelectorAll paginaParagrafos seletorSecoes = Inr [secao4]"
  by (simp_all add: paginaParagrafos_def pageOf_def matchesOf_def seletores Let_def
      elementosTestId_def elementosComAtributos_def consulta_def)

lemma not_incompleta_texto400: "\<not> incompleta texto400"
proof -
  have "naoContem texto400 [nivelDeExperiencia, tipoDeEmprego]"
    by (rule naoContemI [OF lower_texto400]) (simp add: texto400_def palavras)
  then show ?thesis
    by (simp add: incompleta_def naoContem_def trim_aparado [OF aparado_texto400])
       (simp add: texto400_def)
qed

lemma tentativa_sessaoDe:
  "tentativa (sessaoDe d1 d2) =
     (case descricaoDe d1 of
        Inl e \<Rightarrow> Inl e
      | Inr descricao \<Rightarrow>
          if incompleta descricao
          then (case descricaoAlternativa d2 of
                  Inl e \<Rightarrow> Inl e
                | Inr None \<Rightarrow> Inr (trim descricao)
                | Inr (Some a) \<Rightarrow>
                    if a \<noteq> [] \<and> 300 < length a then Inr (trim a) else Inr (trim descricao))
          else Inr (trim descricao))"
  by (simp add: tentativa_def sessaoDe_def evaluate_def fecharERetornar_def
      split: sum.splits option.splits)

lemma textoLinhas_not_naoEncontrada: "textoLinhas \<noteq> naoEncontrada"
proof -
  have "length textoLinhas \<noteq> length naoEncontrada"
    by (simp add: length_textoLinhas length_naoEncontrada)
  then show ?thesis by auto
qed

lemma textoLinhas_not_erro: "\<not> prefix erroAoBaixar textoLinhas"
proof
  assume "prefix erroAoBaixar textoLinhas"
  then obtain z where "textoLinhas = erroAoBaixar @ z" by (auto simp: prefix_def)
  then have "hd textoLinhas = hd (erroAoBaixar @ z)" by simp
  then show False by (simp add: erroAoBaixar_def textoLinhas_def linha21_def latin1_def)
qed

lemma baixar_chain_throws:
  "descricaoDe d = Inl e \<Longrightarrow> baixarDescricaoVaga (sessaoDe d d2) = Inr (erroAoBaixar @ e)"
  by (simp add: baixarDescricaoVaga_def tentativa_sessaoDe)

lemma blocos_desejavel:
  "blocoRelevante bloco509" "blocoRelevante bloco609"
  "textoContent (comTexto bloco509 abaixo) = bloco509"
  "textoContent (comTexto bloco609 abaixo) = bloco609"
  "length bloco509 = 509" "length bloco609 = 609"
  unfolding bloco509_def bloco609_def
  by (rule blocoRelevante_desejavel; simp)+ (simp_all add: palavras)

lemma aparado_blocos: "aparado bloco509" "aparado bloco609"
  by (simp_all add: aparado_def bloco509_def bloco609_def palavras isWhiteSpace_def)

lemma lower_blocos: "toLowerCase bloco509 = bloco509" "toLowerCase bloco609 = bloco609"
  by (rule toLowerCase_id, simp add: bloco509_def bloco609_def palavras lowerUnits_def list_all_iff)+

lemma aceitaAlternativa_bloco509: "aceitaAlternativa bloco509"
  unfolding aceitaAlternativa_def
proof (intro conjI)
  show "500 < length bloco509" by (simp add: blocos_desejavel)
  show "temPalavrasChave bloco509 palavrasChaveAlternativa"
    by (rule temPalavrasChaveI [where k = desejavel])
       (simp_all add: palavrasChaveAlternativa_def lower_blocos, simp add: bloco509_def includes_str_prefix)
  show "naoContem bloco509 metadadosAlternativa"
    by (rule naoContemI [OF lower_blocos(1)]) (simp add: bloco509_def metadadosAlternativa_def palavras)
  show "naoContem bloco509 [latin1 ''linkedin'']"
    by (rule naoContemI [OF lower_blocos(1)]) (simp add: bloco509_def palavras)
qed

lemma aparado_textoTresBlocos: "aparado textoTresBlocos"
  by (simp add: aparado_def textoTresBlocos_def bloco609_def palavras isWhiteSpace_def)

lemma lower_textoTresBlocos: "toLowerCase textoTresBlocos = textoTresBlocos"
  by (rule toLowerCase_id)
     (simp add: textoTresBlocos_def bloco509_def bloco609_def palavras lowerUnits_def list_all_iff)

lemma not_aceitaAlternativa_textoTresBlocos: "\<not> aceitaAlternativa textoTresBlocos"
proof -
  have "includes_str textoTresBlocos (latin1 ''linkedin'')"
    unfolding textoTresBlocos_def by (rule includes_str_prefix)
  then show ?thesis by (simp add: aceitaAlternativa_def naoContem_def lower_textoTresBlocos)
qed

lemma todos_paginaBlocos:
  "querySelectorAll paginaBlocos seletorTodos =
     Inr ([comTexto textoTresBlocos [comTexto (latin1 ''linkedin'') []], comTexto [] [],
           comTexto textoTresBlocos [comTexto (latin1 ''linkedin'') []],
           comTexto (latin1 ''linkedin'') []]
          @ comTexto bloco509 [] # [comTexto bloco609 []])"
  by (simp add: paginaBlocos_def pageOf_def matchesOf_def seletores Let_def)

lemma textoInner_paginaBlocos:
  "textoInner (comTexto textoTresBlocos abaixo) = textoTresBlocos"
  "textoInner (comTexto [] abaixo) = []"
  "textoInner (comTexto (latin1 ''linkedin'') abaixo) = latin1 ''linkedin''"
  "textoInner (comTexto bloco509 abaixo) = bloco509"
proof -
  have "aparado (latin1 ''linkedin'')" by (simp add: aparado_def latin1_def isWhiteSpace_def)
  then show "textoInner (comTexto (latin1 ''linkedin'') abaixo) = latin1 ''linkedin''"
    by (intro textoInner_comTexto trim_aparado)
qed (simp_all add: textoInner_comTexto trim_aparado aparado_textoTresBlocos aparado_blocos trim_Nil)

lemma antes_paginaBlocos:
  "catalogo paginaBlocos seletoresPrioritarios = None" "elementosTestId paginaBlocos = Inr None"
  "elementosComAtributos paginaBlocos = Inr None" "secoesComParagrafos paginaBlocos = Inr None"
  "todosDivs paginaBlocos = Inr None"
  "querySelectorAll paginaBlocos seletorElementos = Inr [comTexto bloco509 [], comTexto bloco609 []]"
  by (simp_all add: paginaBlocos_def pageOf_def matchesOf_def seletores Let_def
      elementosTestId_def elementosComAtributos_def secoesComParagrafos_def todosDivs_def
      consulta_def secaoComParagrafos_def comTexto_def)

lemma descricaoDe_paginaVaziaErro: "descricaoDe paginaVaziaErro = Inl (latin1 ''SyntaxError'')"
proof -
  have "catalogo paginaVaziaErro seletoresPrioritarios = None"
    by (simp add: paginaVaziaErro_def paginaVazia_def pageOf_def matchesOf_def seletores)
  moreover have "elementosTestId paginaVaziaErro = Inl (latin1 ''SyntaxError'')"
    by (simp add: paginaVaziaErro_def elementosTestId_def consulta_def)
  ultimately show ?thesis by (simp add: descricaoDe_def estrategias_def)
qed

section \<open>The claims\<close>

subsection \<open>C1: the length of an accepted text\<close>

text \<open>
  C1, as stated, says that no returned text other than the fixed not-found text is shorter
  than 300 characters. The page \<open>paginaLinhas\<close> refutes it: only the line filter of lines
  522-556 finds a text there, six lines of 21 characters joined by blank lines, and the
  alternative scan finds nothing, so the call returns those 136 characters.
\<close>

theorem short_text_counterexample:
  "baixarDescricaoVaga (sessaoDe paginaLinhas paginaLinhas) = Inr textoLinhas \<and>
   length textoLinhas = 136 \<and> textoLinhas \<noteq> naoEncontrada \<and>
   \<not> prefix erroAoBaixar textoLinhas"
  by (simp add: baixar_paginaLinhas length_textoLinhas textoLinhas_not_naoEncontrada
      textoLinhas_not_erro)

text \<open>
  C1, as the code has it: a returned text is the error text of lines 618-621, the fixed
  not-found text, a text longer than 300 characters, or the trimmed output of the line
  filter on the first page, which has at least 136 characters. Every strategy but the
  line filter, and the alternative scan, only returns a text longer than 300 characters.
\<close>

theorem short_only_from_line_filter:
  assumes "baixarDescricaoVaga s = Inr t"
  shows "(\<exists>m. t = erroAoBaixar @ m) \<or> t = naoEncontrada \<or> 300 < length t \<or>
         (136 \<le> length t \<and>
          (\<exists>d u. primeiraPagina s = Inr d \<and> mainContent d = Inr (Some u) \<and> t = trim u))"
proof (cases "tentativa s")
  case (Inl m)
  with assms show ?thesis by (auto simp: baixarDescricaoVaga_def)
next
  case (Inr v)
  with assms have tv: "t = v" by (simp add: baixarDescricaoVaga_def)
  from tentativa_Inr [OF Inr] obtain d descricao where
    d: "primeiraPagina s = Inr d" and dd: "descricaoDe d = Inr descricao"
    and v: "v = trim descricao \<or> (\<exists>d2. descricaoAlternativa d2 = Inr (Some v))" by blast
  from v show ?thesis
  proof
    assume v: "v = trim descricao"
    from descricaoDe_result [OF dd] show ?thesis
    proof (elim disjE)
      assume "descricao = naoEncontrada"
      with v tv show ?thesis using trim_aparado [OF aparado_naoEncontrada] by auto
    next
      assume "300 < length descricao \<and> aparado descricao"
      with v tv show ?thesis by (auto simp: trim_aparado)
    next
      assume m: "mainContent d = Inr (Some descricao)"
      from mainContent_long [OF m] v tv d m show ?thesis by auto
    qed
  next
    assume "\<exists>d2. descricaoAlternativa d2 = Inr (Some v)"
    then show ?thesis using tv by (auto dest!: descricaoAlternativa_Some simp: aceitaAlternativa_def)
  qed
qed

theorem short_only_from_line_filter_witness:
  "length textoLinhas = 136 \<and>
   (\<exists>d u. primeiraPagina (sessaoDe paginaLinhas paginaLinhas) = Inr d \<and>
      mainContent d = Inr (Some u) \<and> textoLinhas = trim u)"
proof -
  have "textoLinhas \<noteq> erroAoBaixar @ m" for m
    using textoLinhas_not_erro by (auto simp: prefix_def)
  with short_only_from_line_filter [OF baixar_paginaLinhas] textoLinhas_not_naoEncontrada
  show ?thesis by (auto simp: length_textoLinhas)
qed

subsection \<open>C2: the second pass\<close>

text \<open>
  C2, as stated, says that after an incomplete first result the full chain runs again and its
  outcome is returned. On an empty first page and a second page whose catalog element
  holds 400 characters, the full chain on the second page would return those 400
  characters, but the call returns the first result, the fixed not-found text: the
  second pass is the scan of lines 574-607, which finds nothing on that page.
\<close>

theorem second_pass_counterexample:
  "descricaoDe paginaVazia = Inr naoEncontrada \<and> incompleta naoEncontrada \<and>
   descricaoDe paginaCatalogo = Inr texto400 \<and>
   baixarDescricaoVaga (sessaoDe paginaVazia paginaCatalogo) = Inr naoEncontrada \<and>
   naoEncontrada \<noteq> texto400"
proof -
  have "length naoEncontrada \<noteq> length texto400"
    by (simp add: length_naoEncontrada texto400_def)
  then have "naoEncontrada \<noteq> texto400" by auto
  then show ?thesis
    by (simp add: descricaoDe_paginaVazia incompleta_naoEncontrada descricaoDe_paginaCatalogo
        baixar_vazia_catalogo)
qed

text \<open>
  C2, as the code has it: when the first result is complete it is returned, trimmed, and
  the page is not read again. When it is incomplete (shorter than 300 characters after
  trimming, or naming one of the two metadata phrases of lines 564-565), the page is read
  exactly once more, by the alternative scan of lines 574-607 and not by the chain: the
  scan goes through all the elements of the second page in document order, and the text
  of the first element that it accepts (longer than 500 characters, naming a description
  keyword, no metadata phrase and not \<^verbatim>\<open>linkedin\<close>) is the result; when it accepts no
  element the result is the first pass's text, trimmed. There is no further pass.
\<close>

theorem one_alternative_scan:
  assumes "preparo s = None" "primeiraPagina s = Inr d1" "descricaoDe d1 = Inr descricao"
    "fechar s = None"
  shows "(\<not> incompleta descricao \<longrightarrow> baixarDescricaoVaga s = Inr (trim descricao)) \<and>
         (incompleta descricao \<longrightarrow>
            (\<forall>d2 els. segundaPagina s = Inr d2 \<and> querySelectorAll d2 seletorTodos = Inr els \<longrightarrow>
               ((\<forall>el \<in> set els. \<not> aceitaAlternativa (textoInner el)) \<longrightarrow>
                  baixarDescricaoVaga s = Inr (trim descricao)) \<and>
               (\<forall>pre el post.
                  els = pre @ el # post \<and> (\<forall>x \<in> set pre. \<not> aceitaAlternativa (textoInner x)) \<and>
                  aceitaAlternativa (textoInner el) \<longrightarrow>
                  baixarDescricaoVaga s = Inr (textoInner el) \<and> 500 < length (textoInner el))))"
proof (intro conjI impI allI)
  assume "\<not> incompleta descricao"
  with assms show "baixarDescricaoVaga s = Inr (trim descricao)"
    by (simp add: baixarDescricaoVaga_def tentativa_def evaluate_def fecharERetornar_def)
next
  fix d2 els
  assume i: "incompleta descricao"
    and 2: "segundaPagina s = Inr d2 \<and> querySelectorAll d2 seletorTodos = Inr els"
    and n: "\<forall>el \<in> set els. \<not> aceitaAlternativa (textoInner el)"
  from 2 n have "descricaoAlternativa d2 = Inr None"
    by (simp add: descricaoAlternativa_def consulta_def find_none)
  with assms i 2 show "baixarDescricaoVaga s = Inr (trim descricao)"
    by (simp add: baixarDescricaoVaga_def tentativa_def evaluate_def fecharERetornar_def)
next
  fix d2 els pre el post
  assume i: "incompleta descricao"
    and 2: "segundaPagina s = Inr d2 \<and> querySelectorAll d2 seletorTodos = Inr els"
    and f: "els = pre @ el # post \<and> (\<forall>x \<in> set pre. \<not> aceitaAlternativa (textoInner x)) \<and>
      aceitaAlternativa (textoInner el)"
  from f have "find aceitaAlternativa (map textoInner (pre @ el # post)) = Some (textoInner el)"
    by (intro find_first) auto
  with 2 f have a: "descricaoAlternativa d2 = Inr (Some (textoInner el))"
    unfolding descricaoAlternativa_def consulta_def by simp
  from f aceitaAlternativa_trimmed [of el]
  have t: "textoInner el \<noteq> []" "300 < length (textoInner el)" "trim (textoInner el) = textoInner el"
    by auto
  from assms i 2 a t show "baixarDescricaoVaga s = Inr (textoInner el)"
    by (simp add: baixarDescricaoVaga_def tentativa_def evaluate_def fecharERetornar_def)
  from f show "500 < length (textoInner el)" by (simp add: aceitaAlternativa_def)
qed

theorem one_alternative_scan_witness:
  "incompleta naoEncontrada \<and>
   baixarDescricaoVaga (sessaoDe paginaVazia paginaCatalogo) = Inr (trim naoEncontrada) \<and>
   baixarDescricaoVaga (sessaoDe paginaVazia paginaBlocos) = Inr bloco509"
proof -
  note th1 = one_alternative_scan [of "sessaoDe paginaVazia paginaCatalogo" paginaVazia naoEncontrada]
  note th2 = one_alternative_scan [of "sessaoDe paginaVazia paginaBlocos" paginaVazia naoEncontrada]
  have s: "preparo (sessaoDe paginaVazia d2) = None"
    "primeiraPagina (sessaoDe paginaVazia d2) = Inr paginaVazia"
    "segundaPagina (sessaoDe paginaVazia d2) = Inr d2"
    "fechar (sessaoDe paginaVazia d2) = None" for d2
    by (simp_all add: sessaoDe_def)
  have t: "trim texto400 = texto400" by (rule trim_aparado [OF aparado_texto400])
  have q1: "querySelectorAll paginaCatalogo seletorTodos =
      Inr [comTexto texto400 [comTexto texto400 []], comTexto [] [],
           comTexto texto400 [comTexto texto400 []], comTexto texto400 []]"
    by (simp add: paginaCatalogo_def pageOf_def matchesOf_def seletores Let_def)
  have n1: "\<forall>el \<in> set [comTexto texto400 [comTexto texto400 []], comTexto [] [],
      comTexto texto400 [comTexto texto400 []], comTexto texto400 []].
      \<not> aceitaAlternativa (textoInner el)"
    using not_aceitaAlternativa_short [of texto400] not_aceitaAlternativa_short [of "[]"]
    by (simp add: textoInner_comTexto t trim_Nil) (simp add: texto400_def)
  from th1 [OF s(1) s(2) descricaoDe_paginaVazia s(4)] incompleta_naoEncontrada s(3) q1 n1
  have 1: "baixarDescricaoVaga (sessaoDe paginaVazia paginaCatalogo) = Inr (trim naoEncontrada)"
    by blast
  have n2: "\<forall>x \<in> set [comTexto textoTresBlocos [comTexto (latin1 ''linkedin'') []], comTexto [] [],
      comTexto textoTresBlocos [comTexto (latin1 ''linkedin'') []],
      comTexto (latin1 ''linkedin'') []]. \<not> aceitaAlternativa (textoInner x)"
    using not_aceitaAlternativa_short [of "latin1 ''linkedin''"] not_aceitaAlternativa_short [of "[]"]
    by (simp add: textoInner_paginaBlocos not_aceitaAlternativa_textoTresBlocos)
       (simp add: latin1_def)
  have a2: "aceitaAlternativa (textoInner (comTexto bloco509 []))"
    by (simp add: textoInner_paginaBlocos aceitaAlternativa_bloco509)
  from th2 [OF s(1) s(2) descricaoDe_paginaVazia s(4)] incompleta_naoEncontrada s(3)
    todos_paginaBlocos n2 a2
  have "baixarDescricaoVaga (sessaoDe paginaVazia paginaBlocos) = Inr (textoInner (comTexto bloco509 []))"
    by blast
  then have 2: "baixarDescricaoVaga (sessaoDe paginaVazia paginaBlocos) = Inr bloco509"
    by (simp add: textoInner_paginaBlocos)
  from 1 2 incompleta_naoEncontrada show ?thesis by simp
qed

subsection \<open>C3: a failure of the page\<close>

text \<open>
  C3, as stated, says that a failure of the page leaves the call as an exception. When the
  navigation fails, the call returns a string instead.
\<close>

theorem exception_counterexample:
  "baixarDescricaoVaga sessaoSemRede = Inr (erroAoBaixar @ latin1 ''net::ERR_NAME_NOT_RESOLVED'')"
  by (simp add: baixarDescricaoVaga_def tentativa_def sessaoSemRede_def)

text \<open>
  C3, as the code has it: when opening or navigating the page throws, or the browser
  cannot run the first \<^verbatim>\<open>page.evaluate\<close>, the call returns the text
  \<^verbatim>\<open>Erro ao baixar descricao: \<close> (with its cedilla and tilde) followed by the message
  of the exception, and no exception ever leaves the call.
\<close>

theorem failure_is_returned:
  "(preparo s = Some m \<longrightarrow> baixarDescricaoVaga s = Inr (erroAoBaixar @ m)) \<and>
   (preparo s = None \<and> primeiraPagina s = Inl m \<longrightarrow> baixarDescricaoVaga s = Inr (erroAoBaixar @ m)) \<and>
   (\<forall>e. baixarDescricaoVaga s \<noteq> Inl e)"
  by (auto simp: baixarDescricaoVaga_def tentativa_def evaluate_def split: sum.splits)

theorem failure_is_returned_witness:
  "baixarDescricaoVaga sessaoSemRede = Inr (erroAoBaixar @ latin1 ''net::ERR_NAME_NOT_RESOLVED'') \<and>
   (\<forall>e. baixarDescricaoVaga sessaoSemRede \<noteq> Inl e)"
  using failure_is_returned [of sessaoSemRede "latin1 ''net::ERR_NAME_NOT_RESOLVED''"]
  by (simp add: sessaoSemRede_def)

subsection \<open>C4: negative keywords\<close>

text \<open>
  C4, as stated, says that a text naming a negative keyword is rejected by every
  classification, so that no accepted text names one. The attribute sweep of lines
  334-374 does not look for \<^verbatim>\<open>tipo de emprego\<close>: on \<open>paginaMetadados\<close> it accepts a
  text that names it, and the call returns that text.
\<close>

theorem negative_keyword_counterexample:
  "aceitaAtributos textoMetadados \<and>
   baixarDescricaoVaga (sessaoDe paginaMetadados paginaMetadados) = Inr textoMetadados \<and>
   includes_str (toLowerCase textoMetadados) tipoDeEmprego"
  by (simp add: aceitaAtributos_textoMetadados baixar_paginaMetadados
      tipoDeEmprego_textoMetadados)

text \<open>
  C4, as the code has it: the classification of the catalog path rejects, whatever its
  length, a text that names one of the twelve negative keywords of lines 295-306, so
  the text the catalog path accepts names none of them. The \<^verbatim>\<open>data-test-id\<close> sweep,
  the attribute sweep, the keyword scan and the largest-block scan each reject the
  keywords of their own, shorter list only.
\<close>

theorem catalog_rejects_negative:
  "(k \<in> set negativasSeletor \<and> includes_str (toLowerCase t) k \<longrightarrow> \<not> aceitaSeletor t) \<and>
   (catalogo d sels = Some u \<longrightarrow> naoContem u negativasSeletor) \<and>
   (aceitaTestId t \<longrightarrow> naoContem t negativasTestId) \<and>
   (aceitaAtributos t \<longrightarrow> naoContem t negativasAtributos) \<and>
   (aceitaDiv t \<longrightarrow> naoContem t metadadosDiv) \<and>
   (blocoRelevante t \<longrightarrow> naoContem t negativasBloco)"
proof -
  have "\<not> aceitaSeletor t" if "k \<in> set negativasSeletor" "includes_str (toLowerCase t) k"
    using that by (auto simp: aceitaSeletor_def naoContem_def list_all_iff)
  moreover have "naoContem u negativasSeletor" if "catalogo d sels = Some u"
    using catalogo_Some [OF that] by (simp add: aceitaSeletor_def)
  ultimately show ?thesis
    by (auto simp: aceitaTestId_def aceitaAtributos_def aceitaDiv_def blocoRelevante_def)
qed

theorem catalog_rejects_negative_witness:
  "\<not> aceitaSeletor textoPaginaLinhas \<and> naoContem texto400 negativasSeletor \<and>
   naoContem textoMetadados negativasAtributos"
  using catalog_rejects_negative
    [of "latin1 ''linkedin''" textoPaginaLinhas paginaCatalogo seletoresPrioritarios texto400]
    catalog_rejects_negative [of _ textoMetadados]
    linkedin_textoPaginaLinhas catalogo_paginaCatalogo aceitaAtributos_textoMetadados
  by (simp add: negativasSeletor_def)

subsection \<open>C5: an exception of a query\<close>

text \<open>
  C5, as stated, says that any exception of a query for a selector is caught and counts
  as no candidate, so that the call still returns an accepted text or the fixed
  not-found text. Only the queries of the catalog loop have a \<^verbatim>\<open>try\<close> of their own. On
  the empty page, when the query of the \<^verbatim>\<open>data-test-id\<close> sweep (line 317) throws, the
  exception leaves the chain and the call returns the error text.
\<close>

theorem fallback_exception_counterexample:
  "querySelectorAll paginaVaziaErro seletorTestId = Inl (latin1 ''SyntaxError'') \<and>
   descricaoDe paginaVaziaErro = Inl (latin1 ''SyntaxError'') \<and>
   baixarDescricaoVaga (sessaoDe paginaVaziaErro paginaVaziaErro)
     = Inr (erroAoBaixar @ latin1 ''SyntaxError'')"
  by (simp add: descricaoDe_paginaVaziaErro baixar_chain_throws) (simp add: paginaVaziaErro_def)

text \<open>
  C5, as the code has it: when the query of a catalog selector throws, the chain gives
  the result it gives when that query finds no element: the exception is caught in the
  iteration and the scan goes on with the next selector or, after the last one, with the
  next strategy. The queries of the fallback strategies and of the main content are not
  guarded: an exception leaves the chain only from one of them (so the chain returns a
  text when none of them throws), it does so for the \<^verbatim>\<open>data-test-id\<close> sweep whenever
  the catalog finds nothing, and the call then returns the error text of lines 618-621
  with the message of the exception.
\<close>

theorem rule_exception_caught:
  "(sel \<in> set seletoresPrioritarios \<and> querySelector d sel = Inl e \<longrightarrow>
      descricaoDe d = descricaoDe (d\<lparr>querySelector := (querySelector d)(sel := Inr None)\<rparr>)) \<and>
   ((\<forall>q \<in> set seletoresConsultados. \<not> isl (querySelectorAll d q)) \<and>
    \<not> isl (querySelector d seletorMain) \<longrightarrow> (\<exists>t. descricaoDe d = Inr t)) \<and>
   (descricaoDe d = Inl e \<longrightarrow>
      ((\<exists>q \<in> set seletoresConsultados. querySelectorAll d q = Inl e) \<or>
       querySelector d seletorMain = Inl e) \<and>
      baixarDescricaoVaga (sessaoDe d d2) = Inr (erroAoBaixar @ e)) \<and>
   (catalogo d seletoresPrioritarios = None \<and> querySelectorAll d seletorTestId = Inl e \<longrightarrow>
      descricaoDe d = Inl e)"
proof (intro conjI impI)
  assume "sel \<in> set seletoresPrioritarios \<and> querySelector d sel = Inl e"
  then show "descricaoDe d = descricaoDe (d\<lparr>querySelector := (querySelector d)(sel := Inr None)\<rparr>)"
    using estrategias_throw [of sel d e] by (simp add: descricaoDe_def)
next
  assume "(\<forall>q \<in> set seletoresConsultados. \<not> isl (querySelectorAll d q)) \<and>
    \<not> isl (querySelector d seletorMain)"
  then show "\<exists>t. descricaoDe d = Inr t" using descricaoDe_no_throw by blast
next
  assume a: "descricaoDe d = Inl e"
  show "(\<exists>q \<in> set seletoresConsultados. querySelectorAll d q = Inl e) \<or>
      querySelector d seletorMain = Inl e"
    by (rule descricaoDe_Inl [OF a])
  show "baixarDescricaoVaga (sessaoDe d d2) = Inr (erroAoBaixar @ e)"
    by (rule baixar_chain_throws [OF a])
next
  assume "catalogo d seletoresPrioritarios = None \<and> querySelectorAll d seletorTestId = Inl e"
  then show "descricaoDe d = Inl e"
    by (simp add: descricaoDe_def estrategias_def elementosTestId_def consulta_def)
qed

theorem rule_exception_caught_witness:
  "descricaoDe paginaComErro = Inr texto400 \<and>
   descricaoDe paginaVaziaErro = Inl (latin1 ''SyntaxError'') \<and>
   baixarDescricaoVaga (sessaoDe paginaVaziaErro paginaVazia)
     = Inr (erroAoBaixar @ latin1 ''SyntaxError'')"
proof -
  let ?sel = "''.show-more-less-html__markup''"
  have 1: "?sel \<in> set seletoresPrioritarios" by (simp add: seletoresPrioritarios_def)
  have 2: "querySelector paginaComErro ?sel = Inl (latin1 ''SyntaxError'')"
    by (simp add: paginaComErro_def)
  have "querySelector paginaCatalogo ?sel = Inr None"
    by (simp add: paginaCatalogo_def pageOf_def matchesOf_def seletores Let_def)
  then have "(querySelector paginaCatalogo)(?sel := Inr None) = querySelector paginaCatalogo"
    by (metis fun_upd_triv)
  then have 3: "paginaComErro\<lparr>querySelector := (querySelector paginaComErro)(?sel := Inr None)\<rparr>
      = paginaCatalogo"
    by (simp add: paginaComErro_def)
  from rule_exception_caught [of ?sel paginaComErro "latin1 ''SyntaxError''"] 1 2
  have "descricaoDe paginaComErro
      = descricaoDe (paginaComErro\<lparr>querySelector := (querySelector paginaComErro)(?sel := Inr None)\<rparr>)"
    by blast
  then have a: "descricaoDe paginaComErro = Inr texto400"
    by (simp only: 3 descricaoDe_paginaCatalogo)
  have 4: "catalogo paginaVaziaErro seletoresPrioritarios = None"
    by (simp add: paginaVaziaErro_def paginaVazia_def pageOf_def matchesOf_def seletores)
  have 5: "querySelectorAll paginaVaziaErro seletorTestId = Inl (latin1 ''SyntaxError'')"
    by (simp add: paginaVaziaErro_def)
  note th = rule_exception_caught [of _ paginaVaziaErro "latin1 ''SyntaxError''" paginaVazia]
  from th 4 5 have b: "descricaoDe paginaVaziaErro = Inl (latin1 ''SyntaxError'')" by blast
  with th have "baixarDescricaoVaga (sessaoDe paginaVaziaErro paginaVazia)
      = Inr (erroAoBaixar @ latin1 ''SyntaxError'')" by blast
  with a b show ?thesis by simp
qed

subsection \<open>C6: the order of the strategies\<close>

text \<open>
  C6: when the catalog finds a text, the chain returns it whatever every
  \<^verbatim>\<open>querySelectorAll\<close> of the page would answer, an exception included: no fallback
  strategy is run. When the catalog finds nothing and the \<^verbatim>\<open>data-test-id\<close> sweep finds
  a text, the chain returns it whatever the queries of the later strategies (paragraph
  aggregation and largest block among them) would answer.
\<close>

theorem short_circuit:
  assumes "\<forall>sel \<in> set seletoresPrioritarios. querySelector d' sel = querySelector d sel"
  shows "(catalogo d seletoresPrioritarios = Some t \<longrightarrow> descricaoDe d' = Inr t) \<and>
         (catalogo d seletoresPrioritarios = None \<and> elementosTestId d = Inr (Some t) \<and>
          querySelectorAll d' seletorTestId = querySelectorAll d seletorTestId
            \<longrightarrow> descricaoDe d' = Inr t)"
proof -
  have c: "catalogo d' seletoresPrioritarios = catalogo d seletoresPrioritarios"
    using assms by (rule catalogo_cong)
  have "elementosTestId d' = elementosTestId d"
    if "querySelectorAll d' seletorTestId = querySelectorAll d seletorTestId"
    using that unfolding elementosTestId_def by (rule consulta_cong)
  with c show ?thesis by (auto simp: descricaoDe_def estrategias_def)
qed

theorem short_circuit_witness:
  "descricaoDe paginaSoCatalogo = Inr texto400 \<and> descricaoDe paginaSoTestId = Inr textoAssistente"
proof -
  have 1: "\<forall>sel \<in> set seletoresPrioritarios.
      querySelector paginaSoCatalogo sel = querySelector paginaCatalogo sel"
    by (simp add: paginaSoCatalogo_def)
  have 2: "\<forall>sel \<in> set seletoresPrioritarios.
      querySelector paginaSoTestId sel = querySelector paginaTestId sel"
    by (simp add: paginaSoTestId_def)
  have 3: "querySelectorAll paginaSoTestId seletorTestId = querySelectorAll paginaTestId seletorTestId"
    by (simp add: paginaSoTestId_def)
  from short_circuit [OF 1, of texto400] short_circuit [OF 2, of textoAssistente]
  show ?thesis
    by (simp add: catalogo_paginaCatalogo catalogo_paginaTestId elementosTestId_paginaTestId 3)
qed

subsection \<open>C8: the largest relevant block\<close>

text \<open>
  C8: let \<open>els\<close> be the elements that the page answers for
  \<^verbatim>\<open>div, section, article, main\<close>. When none of them has a relevant text (longer than 500
  characters, naming none of the negative keywords of the scan and naming a positive
  keyword), the scan of lines 452-497 falls through. Otherwise it returns the text of one
  of them that is relevant and at least as long as every relevant text, not the first
  relevant one; and this text is the result of the chain when the five strategies before
  the scan fall through.
\<close>

theorem maiorBloco_greatest:
  assumes "querySelectorAll d seletorElementos = Inr els"
  shows "(\<not> (\<exists>el \<in> set els. blocoRelevante (textoContent el)) \<longrightarrow> todosElementos d = Inr None) \<and>
         ((\<exists>el \<in> set els. blocoRelevante (textoContent el)) \<longrightarrow>
            (\<exists>el \<in> set els.
               todosElementos d = Inr (Some (textoContent el)) \<and>
               blocoRelevante (textoContent el) \<and>
               (\<forall>c \<in> set els. blocoRelevante (textoContent c) \<longrightarrow>
                  length (textoContent c) \<le> length (textoContent el)) \<and>
               (catalogo d seletoresPrioritarios = None \<and> elementosTestId d = Inr None \<and>
                elementosComAtributos d = Inr None \<and> secoesComParagrafos d = Inr None \<and>
                todosDivs d = Inr None \<longrightarrow> descricaoDe d = Inr (textoContent el))))"
proof -
  have t: "todosElementos d = Inr (maiorBloco els)"
    using assms by (simp add: todosElementos_def consulta_def)
  have c: "descricaoDe d = Inr x"
    if "todosElementos d = Inr (Some x)" "catalogo d seletoresPrioritarios = None"
      "elementosTestId d = Inr None" "elementosComAtributos d = Inr None"
      "secoesComParagrafos d = Inr None" "todosDivs d = Inr None" for x
    using that by (simp add: descricaoDe_def estrategias_def)
  show ?thesis
  proof (intro conjI impI)
    assume "\<not> (\<exists>el \<in> set els. blocoRelevante (textoContent el))"
    with maiorBloco_max [of els] t show "todosElementos d = Inr None" by simp
  next
    assume "\<exists>el \<in> set els. blocoRelevante (textoContent el)"
    with maiorBloco_max [of els] obtain el where el: "el \<in> set els"
      "maiorBloco els = Some (textoContent el)" "blocoRelevante (textoContent el)"
      "\<forall>c \<in> set els. blocoRelevante (textoContent c) \<longrightarrow>
         length (textoContent c) \<le> length (textoContent el)"
      by blast
    from el(2) t have "todosElementos d = Inr (Some (textoContent el))" by simp
    with el c show "\<exists>el \<in> set els.
        todosElementos d = Inr (Some (textoContent el)) \<and> blocoRelevante (textoContent el) \<and>
        (\<forall>c \<in> set els. blocoRelevante (textoContent c) \<longrightarrow>
           length (textoContent c) \<le> length (textoContent el)) \<and>
        (catalogo d seletoresPrioritarios = None \<and> elementosTestId d = Inr None \<and>
         elementosComAtributos d = Inr None \<and> secoesComParagrafos d = Inr None \<and>
         todosDivs d = Inr None \<longrightarrow> descricaoDe d = Inr (textoContent el))"
      by blast
  qed
qed

theorem maiorBloco_greatest_witness:
  "todosElementos paginaBlocos = Inr (Some bloco609) \<and> descricaoDe paginaBlocos = Inr bloco609 \<and>
   length bloco509 < length bloco609"
proof -
  let ?els = "[comTexto bloco509 [], comTexto bloco609 []]"
  note b = blocos_desejavel
  have "\<exists>el \<in> set ?els. blocoRelevante (textoContent el)" using b by simp
  with maiorBloco_greatest [OF antes_paginaBlocos(6)] antes_paginaBlocos(1-5)
  obtain el where el: "el \<in> set ?els" "todosElementos paginaBlocos = Inr (Some (textoContent el))"
    "\<forall>c \<in> set ?els. blocoRelevante (textoContent c) \<longrightarrow>
       length (textoContent c) \<le> length (textoContent el)"
    "descricaoDe paginaBlocos = Inr (textoContent el)"
    by blast
  from el(3) b have "609 \<le> length (textoContent el)" by simp
  with el(1) b have "textoContent el = bloco609" by auto
  with el(2) el(4) b show ?thesis by simp
qed

subsection \<open>C9: paragraph aggregation\<close>

text \<open>
  C9, as stated, says that a container is accepted exactly when the concatenation of its
  fragments with blank-line separators exceeds 500 characters (among the other
  conditions). \<open>secao3\<close> has three fragments of 165 characters: joined by blank lines
  they make 499 characters, and the container is accepted, because the code measures
  the text with a blank line after every fragment, the last one included (501
  characters).
\<close>

theorem aggregation_threshold_counterexample:
  "secaoComParagrafos secao3 = Some (join_str [0x0A, 0x0A] (fragmentos secao3)) \<and>
   length (fragmentos secao3) = 3 \<and>
   length (join_str [0x0A, 0x0A] (fragmentos secao3)) = 499"
  by (simp add: secaoComParagrafos_secao3 fragmentos_secao3) (simp add: paragrafo165_def)

text \<open>
  C9, as the code has it: a container is accepted exactly when it has at least 3
  fragments (each longer than 50 characters and naming no phrase of the metadata
  list), their concatenation with a blank line after every fragment exceeds 500
  characters, that is, the text joined by blank lines exceeds 498, and the joined text
  names none of \<^verbatim>\<open>linkedin\<close>, \<^verbatim>\<open>entrar\<close>, \<^verbatim>\<open>cadastre-se\<close>; the accepted text is
  the text joined by blank lines. In particular, on a page where the catalog and the
  two sweeps find nothing and whose first container has four paragraphs of 80 to 150
  characters that total more than 492 characters and clear both lists, the chain
  returns the four paragraphs joined by blank lines. (Four paragraphs of at most 150
  characters cannot total the 650 characters of the spec's scenario.)
\<close>

theorem paragraph_aggregation:
  "(secaoComParagrafos secao = Some t \<longleftrightarrow>
      3 \<le> length (fragmentos secao) \<and>
      500 < length (join_str [0x0A, 0x0A] (fragmentos secao)) + 2 \<and>
      naoContem (join_str [0x0A, 0x0A] (fragmentos secao)) negativasSecao \<and>
      t = join_str [0x0A, 0x0A] (fragmentos secao)) \<and>
   (\<forall>f \<in> set (fragmentos secao). 50 < length f \<and> naoContem f metadadosParagrafo) \<and>
   (catalogo d seletoresPrioritarios = None \<and> elementosTestId d = Inr None \<and>
    elementosComAtributos d = Inr None \<and>
    querySelectorAll d seletorSecoes = Inr (c # resto) \<and>
    map textoContent (paragrafos c) = [p1, p2, p3, p4] \<and>
    (\<forall>p \<in> set [p1, p2, p3, p4]. 80 \<le> length p \<and> length p \<le> 150 \<and>
       naoContem p metadadosParagrafo) \<and>
    492 < length p1 + length p2 + length p3 + length p4 \<and>
    naoContem (join_str [0x0A, 0x0A] [p1, p2, p3, p4]) negativasSecao
      \<longrightarrow> descricaoDe d = Inr (join_str [0x0A, 0x0A] [p1, p2, p3, p4]))"
proof (intro conjI impI)
  show "secaoComParagrafos secao = Some t \<longleftrightarrow>
      3 \<le> length (fragmentos secao) \<and>
      500 < length (join_str [0x0A, 0x0A] (fragmentos secao)) + 2 \<and>
      naoContem (join_str [0x0A, 0x0A] (fragmentos secao)) negativasSecao \<and>
      t = join_str [0x0A, 0x0A] (fragmentos secao)"
    by (auto simp: secaoComParagrafos_eq)
  show "\<forall>f \<in> set (fragmentos secao). 50 < length f \<and> naoContem f metadadosParagrafo"
    by (simp add: fragmentos_def paragrafoValido_def)
next
  let ?j = "join_str [0x0A, 0x0A] [p1, p2, p3, p4]"
  assume a: "catalogo d seletoresPrioritarios = None \<and> elementosTestId d = Inr None \<and>
    elementosComAtributos d = Inr None \<and>
    querySelectorAll d seletorSecoes = Inr (c # resto) \<and>
    map textoContent (paragrafos c) = [p1, p2, p3, p4] \<and>
    (\<forall>p \<in> set [p1, p2, p3, p4]. 80 \<le> length p \<and> length p \<le> 150 \<and>
       naoContem p metadadosParagrafo) \<and>
    492 < length p1 + length p2 + length p3 + length p4 \<and>
    naoContem ?j negativasSecao"
  then have "fragmentos c = [p1, p2, p3, p4]"
    by (simp add: fragmentos_def paragrafoValido_def)
  with a have "secaoComParagrafos c = Some ?j"
    by (simp add: secaoComParagrafos_eq)
  with a have "secoesComParagrafos d = Inr (Some ?j)"
    by (simp add: secoesComParagrafos_def consulta_def)
  with a show "descricaoDe d = Inr ?j"
    by (simp add: descricaoDe_def estrategias_def)
qed

theorem paragraph_aggregation_witness:
  "secaoComParagrafos secao3 = Some (join_str [0x0A, 0x0A] (fragmentos secao3)) \<and>
   descricaoDe paginaParagrafos =
     Inr (join_str [0x0A, 0x0A] [paragrafo150, paragrafo150, paragrafo150, paragrafo150])"
proof -
  let ?j3 = "join_str [0x0A, 0x0A] (fragmentos secao3)"
  let ?j4 = "join_str [0x0A, 0x0A] [paragrafo150, paragrafo150, paragrafo150, paragrafo150]"
  have "naoContem (join_str [0x0A, 0x0A] (replicate (Suc 2) (replicate 165 0x78))) negativasSecao"
    by (rule naoContem_juncao) simp
  then have n3: "naoContem ?j3 negativasSecao"
    by (simp add: fragmentos_secao3 paragrafo165_def numeral_2_eq_2)
  have l3: "500 < length ?j3 + 2" by (simp add: fragmentos_secao3 paragrafo165_def)
  have "naoContem (join_str [0x0A, 0x0A] (replicate (Suc 3) (replicate 150 0x78))) negativasSecao"
    by (rule naoContem_juncao) simp
  then have n4: "naoContem ?j4 negativasSecao"
    by (simp add: paragrafo150_def numeral_3_eq_3)
  have v: "naoContem paragrafo150 metadadosParagrafo" "length paragrafo150 = 150"
    using texto_x(3) [of 150] by (simp_all add: paragrafo150_def paragrafoValido_def)
  note th = paragraph_aggregation
    [of secao3 ?j3 paginaParagrafos secao4 "[]" paragrafo150 paragrafo150 paragrafo150 paragrafo150]
  have f3: "3 \<le> length (fragmentos secao3)" by (simp add: fragmentos_secao3)
  from th f3 l3 n3 have 1: "secaoComParagrafos secao3 = Some ?j3" by blast
  have p: "\<forall>p \<in> set [paragrafo150, paragrafo150, paragrafo150, paragrafo150].
      80 \<le> length p \<and> length p \<le> 150 \<and> naoContem p metadadosParagrafo"
    by (simp add: v)
  have t: "492 < length paragrafo150 + length paragrafo150 + length paragrafo150 + length paragrafo150"
    by (simp add: v)
  from th catalogo_paginaParagrafos sweeps_paginaParagrafos fragmentos_secao4 p t n4
  have 2: "descricaoDe paginaParagrafos = Inr ?j4" by blast
  from 1 2 show ?thesis by simp
qed

subsection \<open>C10: the call always returns a non-empty string\<close>

text \<open>
  C10: for every session, \<open>baixarDescricaoVaga\<close> returns (\<open>Inr\<close>) and never throws, and
  the returned string is not empty. It is the error prefix followed by the message \<open>m\<close>
  whenever something throws with \<open>m\<close>: the preparation of the page (the navigation among
  it), the first \<^verbatim>\<open>page.evaluate\<close> or the chain in it, the second \<^verbatim>\<open>page.evaluate\<close> or
  the scan in it when the first result is incomplete, or \<^verbatim>\<open>page.close()\<close>. When nothing
  throws it is the first result, trimmed, or the text that the alternative scan accepts.
\<close>

theorem baixarDescricaoVaga_total:
  "\<exists>t. baixarDescricaoVaga s = Inr t \<and> t \<noteq> [] \<and>
     (\<forall>m. preparo s = Some m \<longrightarrow> t = erroAoBaixar @ m) \<and>
     (preparo s = None \<longrightarrow>
        (\<forall>m. primeiraPagina s = Inl m \<longrightarrow> t = erroAoBaixar @ m) \<and>
        (\<forall>d. primeiraPagina s = Inr d \<longrightarrow>
           (\<forall>m. descricaoDe d = Inl m \<longrightarrow> t = erroAoBaixar @ m) \<and>
           (\<forall>descricao. descricaoDe d = Inr descricao \<longrightarrow>
              (\<not> incompleta descricao \<longrightarrow>
                 (\<forall>m. fechar s = Some m \<longrightarrow> t = erroAoBaixar @ m) \<and>
                 (fechar s = None \<longrightarrow> t = trim descricao)) \<and>
              (incompleta descricao \<longrightarrow>
                 (\<forall>m. segundaPagina s = Inl m \<longrightarrow> t = erroAoBaixar @ m) \<and>
                 (\<forall>d2. segundaPagina s = Inr d2 \<longrightarrow>
                    (\<forall>m. descricaoAlternativa d2 = Inl m \<longrightarrow> t = erroAoBaixar @ m) \<and>
                    (\<forall>r. descricaoAlternativa d2 = Inr r \<longrightarrow>
                       (\<forall>m. fechar s = Some m \<longrightarrow> t = erroAoBaixar @ m) \<and>
                       (fechar s = None \<longrightarrow>
                          t = (case r of None \<Rightarrow> trim descricao | Some a \<Rightarrow> a))))))))"
proof -
  define t where "t = (case tentativa s of Inl m \<Rightarrow> erroAoBaixar @ m | Inr v \<Rightarrow> v)"
  have b: "baixarDescricaoVaga s = Inr t"
    by (simp add: t_def baixarDescricaoVaga_def split: sum.splits)
  have ne: "t \<noteq> []"
    using tentativa_nonempty [of s] erroAoBaixar_nonempty by (auto simp: t_def split: sum.splits)
  have 1: "t = erroAoBaixar @ m" if "preparo s = Some m" for m
    using that by (simp add: t_def tentativa_def)
  have 2: "t = erroAoBaixar @ m" if "preparo s = None" "primeiraPagina s = Inl m" for m
    using that by (simp add: t_def tentativa_def evaluate_def)
  have 3: "t = erroAoBaixar @ m"
    if "preparo s = None" "primeiraPagina s = Inr d" "descricaoDe d = Inl m" for d m
    using that by (simp add: t_def tentativa_def evaluate_def)
  have 4: "t = erroAoBaixar @ m"
    if "preparo s = None" "primeiraPagina s = Inr d" "descricaoDe d = Inr descricao"
      "\<not> incompleta descricao" "fechar s = Some m" for d descricao m
    using that by (simp add: t_def tentativa_def evaluate_def fecharERetornar_def)
  have 5: "t = trim descricao"
    if "preparo s = None" "primeiraPagina s = Inr d" "descricaoDe d = Inr descricao"
      "\<not> incompleta descricao" "fechar s = None" for d descricao
    using that by (simp add: t_def tentativa_def evaluate_def fecharERetornar_def)
  have 6: "t = erroAoBaixar @ m"
    if "preparo s = None" "primeiraPagina s = Inr d" "descricaoDe d = Inr descricao"
      "incompleta descricao" "segundaPagina s = Inl m" for d descricao m
    using that by (simp add: t_def tentativa_def evaluate_def)
  have 7: "t = erroAoBaixar @ m"
    if "preparo s = None" "primeiraPagina s = Inr d" "descricaoDe d = Inr descricao"
      "incompleta descricao" "segundaPagina s = Inr d2" "descricaoAlternativa d2 = Inl m"
    for d descricao d2 m
    using that by (simp add: t_def tentativa_def evaluate_def)
  have 8: "t = erroAoBaixar @ m"
    if "preparo s = None" "primeiraPagina s = Inr d" "descricaoDe d = Inr descricao"
      "incompleta descricao" "segundaPagina s = Inr d2" "descricaoAlternativa d2 = Inr r"
      "fechar s = Some m" for d descricao d2 r m
    using that
    by (cases r) (simp_all add: t_def tentativa_def evaluate_def fecharERetornar_def)
  have 9: "t = (case r of None \<Rightarrow> trim descricao | Some a \<Rightarrow> a)"
    if "preparo s = None" "primeiraPagina s = Inr d" "descricaoDe d = Inr descricao"
      "incompleta descricao" "segundaPagina s = Inr d2" "descricaoAlternativa d2 = Inr r"
      "fechar s = None" for d descricao d2 r
  proof (cases r)
    case None
    with that show ?thesis
      by (simp add: t_def tentativa_def evaluate_def fecharERetornar_def)
  next
    case (Some a)
    with that(6) have "aceitaAlternativa a" "aparado a" using descricaoAlternativa_Some by auto
    then have "a \<noteq> []" "length a > 300" "trim a = a"
      by (auto simp: aceitaAlternativa_def trim_aparado)
    with that Some show ?thesis
      by (simp add: t_def tentativa_def evaluate_def fecharERetornar_def)
  qed
  show ?thesis
    apply (rule exI [where x = t])
    apply (intro conjI allI impI)
              apply (rule b)
             apply (rule ne)
            apply (erule 1)
           apply (erule (1) 2)
          apply (erule (2) 3)
         apply (erule (4) 4)
        apply (erule (4) 5)
       apply (erule (4) 6)
      apply (erule (5) 7)
     apply (erule (6) 8)
    apply (erule (6) 9)
    done
qed

theorem baixarDescricaoVaga_total_witness:
  "baixarDescricaoVaga sessaoSemRede = Inr (erroAoBaixar @ latin1 ''net::ERR_NAME_NOT_RESOLVED'') \<and>
   baixarDescricaoVaga sessaoSemFechar = Inr (erroAoBaixar @ latin1 ''Target closed'') \<and>
   baixarDescricaoVaga (sessaoDe paginaCatalogo paginaCatalogo) = Inr texto400 \<and> texto400 \<noteq> []"
proof -
  have 1: "baixarDescricaoVaga sessaoSemRede
      = Inr (erroAoBaixar @ latin1 ''net::ERR_NAME_NOT_RESOLVED'')"
    using baixarDescricaoVaga_total [of sessaoSemRede]
    by (auto simp: sessaoSemRede_def)
  have f: "preparo sessaoSemFechar = None" "primeiraPagina sessaoSemFechar = Inr paginaCatalogo"
    "fechar sessaoSemFechar = Some (latin1 ''Target closed'')"
    by (simp_all add: sessaoSemFechar_def)
  have 2: "baixarDescricaoVaga sessaoSemFechar = Inr (erroAoBaixar @ latin1 ''Target closed'')"
    using baixarDescricaoVaga_total [of sessaoSemFechar]
    by (auto simp: f descricaoDe_paginaCatalogo not_incompleta_texto400)
  let ?s = "sessaoDe paginaCatalogo paginaCatalogo"
  have g: "preparo ?s = None" "primeiraPagina ?s = Inr paginaCatalogo" "fechar ?s = None"
    by (simp_all add: sessaoDe_def)
  have 3: "baixarDescricaoVaga ?s = Inr texto400 \<and> texto400 \<noteq> []"
    using baixarDescricaoVaga_total [of ?s]
    by (auto simp: g descricaoDe_paginaCatalogo not_incompleta_texto400
        trim_aparado [OF aparado_texto400])
  from 1 2 3 show ?thesis by simp
qed

end
